theory Spec2Isabelle
  imports Complex_Main
begin

section \<open>Kite turbine simulator: the physics tick, the status sampler and the projector\<close>

text \<open>
  The component \<^verbatim>\<open>KiteTurbineSimulation\<close> keeps its inputs in React state
  (\<^verbatim>\<open>envWindSpeed\<close>, \<^verbatim>\<open>torque\<close>, \<^verbatim>\<open>isAutoPilot\<close>, the blade parameters), its rotor
  state in the ref \<^verbatim>\<open>physicsState\<close>, and the deployment scalar in \<^verbatim>\<open>deploymentRef\<close>.
  The closure \<^verbatim>\<open>render\<close> is the physics tick; the \<^verbatim>\<open>setInterval\<close> callback is the status
  sampler; \<^verbatim>\<open>worldToScreen\<close> is the projector.

  Number model: a JavaScript \<^verbatim>\<open>number\<close> is modelled as a \<^typ>\<open>real\<close>, so rounding error,
  infinities and NaN of IEEE doubles are outside the model. \<^verbatim>\<open>Math.PI\<close> is a double
  constant; it is modelled by that double's exact rational value, which keeps the tick
  computable on rational inputs. Mutation of refs and React state is explicit state
  passing on the record \<open>world\<close>.
\<close>

subsection \<open>Constants\<close>

definition TSR_MAX_BASE :: real where
  "TSR_MAX_BASE = 6.0"

definition ROTOR_RADIUS_SCALE :: real where
  "ROTOR_RADIUS_SCALE = 1050"

definition MATH_PI :: real where
  "MATH_PI = 884279719003555 / 281474976710656"

definition fov :: real where
  "fov = 2000"

subsection \<open>State\<close>

record physicsState =
  rpm :: real
  tsr :: real
  kw :: real
  compressionRisk :: bool
  overspeedRisk :: bool
  isRunaway :: bool
  optimalTsr :: real

record world =
  envWindSpeed :: real
  torque :: real
  isAutoPilot :: bool
  bladeCount :: real
  bladeLengthOut :: real
  bladeLengthIn :: real
  uiStatus :: string
  uiRunaway :: bool
  uiGrounded :: bool
  physics :: physicsState
  deploymentRef :: real
  rotationRef :: real

text \<open>The values given to \<^verbatim>\<open>useState\<close> and \<^verbatim>\<open>useRef\<close> when the component mounts.\<close>

definition initialPhysics :: physicsState where
  "initialPhysics = \<lparr> rpm = 0, tsr = 0, kw = 0, compressionRisk = False,
     overspeedRisk = False, isRunaway = False, optimalTsr = 4.0 \<rparr>"

definition initialWorld :: world where
  "initialWorld = \<lparr> envWindSpeed = 12, torque = 50, isAutoPilot = False,
     bladeCount = 6, bladeLengthOut = 380, bladeLengthIn = 230,
     uiStatus = ''Initializing'', uiRunaway = False, uiGrounded = False,
     physics = initialPhysics, deploymentRef = 1.0, rotationRef = 0 \<rparr>"

subsection \<open>The status sampler (the \<^verbatim>\<open>uiInterval\<close> callback)\<close>

text \<open>
  The chain of \<^verbatim>\<open>if / else if\<close> of the callback, in the order of the source: the
  deployment test, the runaway test, the wind test, stall, overspeed; \<^verbatim>\<open>"OPTIMAL"\<close> is
  the initial value of \<^verbatim>\<open>status\<close>. The rounded copies \<^verbatim>\<open>uiRpm\<close> and \<^verbatim>\<open>uiTsr\<close> that the
  callback also stores are display values and are left out of the state.
\<close>

definition statusOf :: "real \<Rightarrow> real \<Rightarrow> physicsState \<Rightarrow> string" where
  "statusOf deployment wind ps =
     (let optimal = optimalTsr ps in
      if deployment < 0.5 then ''GROUNDED''
      else if isRunaway ps then ''RUNAWAY''
      else if wind \<le> 3 then ''GROUNDED''
      else if tsr ps < optimal * 0.6 then ''STALL''
      else if tsr ps > optimal * 1.25 then ''OVERSPEED''
      else ''OPTIMAL'')"

definition groundedFlag :: "real \<Rightarrow> bool" where
  "groundedFlag deployment = (deployment < 0.1)"

definition uiInterval :: "world \<Rightarrow> world" where
  "uiInterval w = w \<lparr> uiRunaway := isRunaway (physics w),
       uiGrounded := groundedFlag (deploymentRef w),
       uiStatus := statusOf (deploymentRef w) (envWindSpeed w) (physics w) \<rparr>"

subsection \<open>The physics tick (\<^verbatim>\<open>render\<close>)\<close>

paragraph \<open>Deployment\<close>

definition targetDeployment :: "real \<Rightarrow> real" where
  "targetDeployment wind = (if wind \<le> 3 then 0.0 else 1.0)"

definition deployStep :: "real \<Rightarrow> real \<Rightarrow> real \<Rightarrow> real" where
  "deployStep dt wind d =
     (let deployDiff = targetDeployment wind - d in
      if \<bar>deployDiff\<bar> > 0.001 then d + deployDiff * dt * 0.8
      else targetDeployment wind)"

definition deplOf :: "real \<Rightarrow> real" where
  "deplOf d = max 0 (min 1 d)"

paragraph \<open>Blade coefficients\<close>

definition bladeCountFactor :: "real \<Rightarrow> real" where
  "bladeCountFactor bc = (bc - 6) * 0.25"

definition hollowFactor :: "real \<Rightarrow> real" where
  "hollowFactor bin = (1 - (bin / 800)) * 0.5"

definition lengthFactor :: "real \<Rightarrow> real" where
  "lengthFactor bout = (bout - 380) / 1000 * 0.2"

definition currentOptimalTSR :: "real \<Rightarrow> real \<Rightarrow> real \<Rightarrow> real" where
  "currentOptimalTSR bc bout bin =
     4.0 - bladeCountFactor bc + hollowFactor bin + lengthFactor bout"

definition currentMaxTSR :: "real \<Rightarrow> real \<Rightarrow> real \<Rightarrow> real" where
  "currentMaxTSR bc bout bin =
     TSR_MAX_BASE - bladeCountFactor bc + hollowFactor bin + lengthFactor bout"

paragraph \<open>Autopilot\<close>

text \<open>
  \<open>newTorque\<close> is the clamped target of the proportional controller. When autopilot is
  on and the target is more than 0.5 away from the stored torque, \<^verbatim>\<open>setTorque\<close> moves the
  stored torque by a tenth of the gap (\<open>storedTorque\<close>), and the local \<^verbatim>\<open>currentTorque\<close>,
  which the rest of the tick uses, is assigned the target itself (\<open>appliedTorque\<close>).
\<close>

definition MAX_SAFE_TORQUE :: real where
  "MAX_SAFE_TORQUE = 80"

definition newTorque :: "real \<Rightarrow> real \<Rightarrow> real \<Rightarrow> real" where
  "newTorque trq tsr0 opt =
     (let error = tsr0 - opt;
          correction = error * 2.0
      in max 0 (min MAX_SAFE_TORQUE (trq + correction)))"

definition storedTorque :: "bool \<Rightarrow> real \<Rightarrow> real \<Rightarrow> real \<Rightarrow> real" where
  "storedTorque ap trq tsr0 opt =
     (if ap \<and> \<bar>newTorque trq tsr0 opt - trq\<bar> > 0.5
      then trq + (newTorque trq tsr0 opt - trq) * 0.1
      else trq)"

definition appliedTorque :: "bool \<Rightarrow> real \<Rightarrow> real \<Rightarrow> real \<Rightarrow> real" where
  "appliedTorque ap trq tsr0 opt =
     (if ap \<and> \<bar>newTorque trq tsr0 opt - trq\<bar> > 0.5
      then newTorque trq tsr0 opt
      else trq)"

paragraph \<open>Target TSR and the runaway latch\<close>

definition requiredTorqueForOptimal :: "real \<Rightarrow> real" where
  "requiredTorqueForOptimal wind = (max 0.1 wind / 12) ^ 2 * 100"

definition brakeRatio :: "real \<Rightarrow> real \<Rightarrow> real" where
  "brakeRatio currentTorque wind = currentTorque / max 1 (requiredTorqueForOptimal wind)"

text \<open>
  The nested conditional of the tick. It yields the target TSR and the new value of
  \<^verbatim>\<open>physicsState.current.isRunaway\<close>; \<open>kw0\<close> is the power stored by the previous tick.
\<close>

definition targetStep ::
  "real \<Rightarrow> bool \<Rightarrow> real \<Rightarrow> real \<Rightarrow> real \<Rightarrow> real \<Rightarrow> real \<Rightarrow> real \<times> bool" where
  "targetStep depl runaway wind br opt maxTsr kw0 =
     (if depl < 0.5 then (0, runaway)
      else if runaway then
        (if wind \<le> 18 then (opt, False) else (6.2, runaway))
      else if br \<ge> 1.0 then (max 0 (opt - (br - 1.0) * 2.0), runaway)
      else
        (let targetTSR = opt + (1.0 - br) * (maxTsr - opt);
             isPowerSaturated = (kw0 \<ge> 30)
         in (targetTSR, if targetTSR > 5.8 \<and> isPowerSaturated then True else runaway)))"

paragraph \<open>Integration and derived outputs\<close>

definition inertia :: real where
  "inertia = 0.05"

definition integrateTsr :: "real \<Rightarrow> real \<Rightarrow> real" where
  "integrateTsr tsr0 targetTSR = tsr0 + (targetTSR - tsr0) * inertia"

definition rpmOf :: "real \<Rightarrow> real \<Rightarrow> real \<Rightarrow> real" where
  "rpmOf tsr1 wind bout =
     (let outerRadiusM = (ROTOR_RADIUS_SCALE + bout) / 100;
          circumferenceM = 2 * MATH_PI * outerRadiusM;
          tipSpeedMs = tsr1 * wind
      in (tipSpeedMs * 60) / circumferenceM)"

definition kwOf :: "real \<Rightarrow> real \<Rightarrow> real \<Rightarrow> real" where
  "kwOf currentTorque rpm1 bc =
     (let bladePowerFactor = 1 + ((bc - 6) * 0.1);
          k = of_int \<lfloor>(currentTorque / 100) * (rpm1 / 32) * 30 * bladePowerFactor\<rfloor>
      in min 30 (max 0 k))"

paragraph \<open>One tick\<close>

definition render :: "real \<Rightarrow> world \<Rightarrow> world" where
  "render dt w =
     (let wind = envWindSpeed w;
          ps = physics w;
          d1 = deployStep dt wind (deploymentRef w);
          depl = deplOf d1;
          opt = currentOptimalTSR (bladeCount w) (bladeLengthOut w) (bladeLengthIn w);
          maxTsr = currentMaxTSR (bladeCount w) (bladeLengthOut w) (bladeLengthIn w);
          currentTorque = appliedTorque (isAutoPilot w) (torque w) (tsr ps) opt;
          torque1 = storedTorque (isAutoPilot w) (torque w) (tsr ps) opt;
          br = brakeRatio currentTorque wind;
          (targetTSR, runaway1) = targetStep depl (isRunaway ps) wind br opt maxTsr (kw ps);
          tsr1 = integrateTsr (tsr ps) targetTSR;
          rpm1 = rpmOf tsr1 wind (bladeLengthOut w);
          kw1 = kwOf currentTorque rpm1 (bladeCount w);
          radsPerSec = (rpm1 / 60) * 2 * MATH_PI
      in w \<lparr> torque := torque1,
             deploymentRef := d1,
             rotationRef := rotationRef w - radsPerSec * dt,
             physics := \<lparr> rpm = rpm1, tsr = tsr1, kw = kw1,
                          compressionRisk = (currentTorque > 85 \<and> wind > 10),
                          overspeedRisk = (tsr1 > opt * 1.3),
                          isRunaway = runaway1,
                          optimalTsr = opt \<rparr> \<rparr>)"

text \<open>The target TSR a tick computes, as a function of the state before the tick.\<close>

definition tickTargetTSR :: "real \<Rightarrow> world \<Rightarrow> real" where
  "tickTargetTSR dt w =
     (let wind = envWindSpeed w;
          ps = physics w;
          opt = currentOptimalTSR (bladeCount w) (bladeLengthOut w) (bladeLengthIn w);
          maxTsr = currentMaxTSR (bladeCount w) (bladeLengthOut w) (bladeLengthIn w);
          currentTorque = appliedTorque (isAutoPilot w) (torque w) (tsr ps) opt
      in fst (targetStep (deplOf (deployStep dt wind (deploymentRef w))) (isRunaway ps) wind
                (brakeRatio currentTorque wind) opt maxTsr (kw ps)))"

text \<open>The value of \<^verbatim>\<open>depl\<close> in a tick: the updated deployment, clamped to the unit interval.\<close>

definition tickDepl :: "real \<Rightarrow> world \<Rightarrow> real" where
  "tickDepl dt w = deplOf (deployStep dt (envWindSpeed w) (deploymentRef w))"


subsection \<open>The projector (\<^verbatim>\<open>worldToScreen\<close>)\<close>

text \<open>\<^verbatim>\<open>ScreenPoint\<close> has the fields of \<^verbatim>\<open>Point3D\<close>; its \<open>z\<close> is the depth.\<close>

record Point3D =
  x :: real
  y :: real
  z :: real

type_synonym ScreenPoint = Point3D

record cameraState =
  theta :: real
  phi :: real
  radius :: real
  targetY :: real
  targetX :: real
  targetZ :: real

text \<open>
  The closure \<^verbatim>\<open>worldToScreen\<close> reads the camera from \<^verbatim>\<open>cameraState.current\<close> and the focal
  constant \<^verbatim>\<open>fov\<close> from its scope; here the camera is a parameter. A \<^verbatim>\<open>null\<close> result is
  \<open>None\<close>.
\<close>

definition worldToScreen :: "cameraState \<Rightarrow> Point3D \<Rightarrow> real \<Rightarrow> real \<Rightarrow> ScreenPoint option" where
  "worldToScreen cam p width height =
     (let x0 = x p - targetX cam;
          y0 = y p - targetY cam;
          z0 = z p - targetZ cam;
          cosT = cos (theta cam);
          sinT = sin (theta cam);
          x2 = x0 * cosT - z0 * sinT;
          z2 = x0 * sinT + z0 * cosT;
          cosP = cos (phi cam);
          sinP = sin (phi cam);
          y3 = y0 * cosP - z2 * sinP;
          z3 = y0 * sinP + z2 * cosP;
          zFinal = z3 - radius cam
      in if zFinal \<ge> 0 then None
         else (let scale = fov / (fov - zFinal)
               in Some \<lparr> x = width / 2 + x2 * scale,
                         y = height / 2 - y3 * scale,
                         z = zFinal \<rparr>))"

text \<open>
  The camera-space coordinates of a world point: translation by the camera target, yaw
  by \<open>theta\<close>, pitch by \<open>phi\<close>, and the camera distance subtracted along the view axis.
\<close>

definition camX :: "cameraState \<Rightarrow> Point3D \<Rightarrow> real" where
  "camX cam p = (x p - targetX cam) * cos (theta cam) - (z p - targetZ cam) * sin (theta cam)"

definition camZ2 :: "cameraState \<Rightarrow> Point3D \<Rightarrow> real" where
  "camZ2 cam p = (x p - targetX cam) * sin (theta cam) + (z p - targetZ cam) * cos (theta cam)"

definition camY :: "cameraState \<Rightarrow> Point3D \<Rightarrow> real" where
  "camY cam p = (y p - targetY cam) * cos (phi cam) - camZ2 cam p * sin (phi cam)"

definition zCam :: "cameraState \<Rightarrow> Point3D \<Rightarrow> real" where
  "zCam cam p = (y p - targetY cam) * sin (phi cam) + camZ2 cam p * cos (phi cam) - radius cam"

subsection \<open>The status rule as the specification words it\<close>

text \<open>
  The specification's precedence, kept apart from \<open>statusOf\<close> for comparison: GROUNDED if
  deployment is below 0.5 or wind is at most 3; else RUNAWAY if flagged; else STALL; else
  OVERSPEED; else OPTIMAL.
\<close>

definition statusSpec :: "real \<Rightarrow> real \<Rightarrow> physicsState \<Rightarrow> string" where
  "statusSpec deployment wind ps =
     (if deployment < 0.5 \<or> wind \<le> 3 then ''GROUNDED''
      else if isRunaway ps then ''RUNAWAY''
      else if tsr ps < optimalTsr ps * 0.6 then ''STALL''
      else if tsr ps > optimalTsr ps * 1.25 then ''OVERSPEED''
      else ''OPTIMAL'')"

subsection \<open>Events: animation frames, UI samples and the control panel\<close>

text \<open>
  The sliders are \<^verbatim>\<open>input type="range"\<close> elements whose handlers store
  \<^verbatim>\<open>parseInt(e.target.value)\<close>. The torque slider is disabled while
  \<^verbatim>\<open>isAutoPilot || uiRunaway || uiGrounded\<close> and its handler stores only when autopilot is
  off; the autopilot button is disabled while \<^verbatim>\<open>uiRunaway || uiGrounded\<close>. A disabled
  control fires no handler.

  The effect that owns the animation loop lists \<^verbatim>\<open>torque\<close>, the blade parameters,
  \<^verbatim>\<open>envWindSpeed\<close> and \<^verbatim>\<open>isAutoPilot\<close> among its dependencies and ends with a direct call
  \<^verbatim>\<open>render()\<close>. So every change of one of these states is followed at once by a tick
  that sees the new value, before any later sample: a control event carries the time
  since the previous tick, and its step is the handler's update followed by that tick.
  (A range input fires only when its value changes; an event that carries the value
  already stored amounts to a frame.) The ticks that the same effect runs after
  \<^verbatim>\<open>setTorque\<close> or after a sample has changed \<^verbatim>\<open>uiStatus\<close> are \<open>Frame\<close> events.
\<close>

datatype event =
    Frame real
  | UiSample
  | WindSlider int real
  | TorqueSlider int real
  | AutoPilotButton real
  | BladeLengthOutSlider int real
  | BladeLengthInSlider int real
  | BladeCountSlider int real

fun step :: "event \<Rightarrow> world \<Rightarrow> world" where
  "step (Frame dt) w = render dt w"
| "step UiSample w = uiInterval w"
| "step (WindSlider v dt) w = render dt (w \<lparr> envWindSpeed := of_int v \<rparr>)"
| "step (TorqueSlider v dt) w =
     (if isAutoPilot w \<or> uiRunaway w \<or> uiGrounded w then w
      else if \<not> isAutoPilot w then render dt (w \<lparr> torque := of_int v \<rparr>) else w)"
| "step (AutoPilotButton dt) w =
     (if uiRunaway w \<or> uiGrounded w then w
      else render dt (w \<lparr> isAutoPilot := \<not> isAutoPilot w \<rparr>))"
| "step (BladeLengthOutSlider v dt) w = render dt (w \<lparr> bladeLengthOut := of_int v \<rparr>)"
| "step (BladeLengthInSlider v dt) w = render dt (w \<lparr> bladeLengthIn := of_int v \<rparr>)"
| "step (BladeCountSlider v dt) w = render dt (w \<lparr> bladeCount := of_int v \<rparr>)"

text \<open>
  The values an event can carry: a duration is not negative, and a slider delivers an
  integer between its \<^verbatim>\<open>min\<close> and \<^verbatim>\<open>max\<close> attributes.
\<close>

fun wellFormed :: "event \<Rightarrow> bool" where
  "wellFormed (Frame dt) = (0 \<le> dt)"
| "wellFormed UiSample = True"
| "wellFormed (WindSlider v dt) = (0 \<le> v \<and> v \<le> 25 \<and> 0 \<le> dt)"
| "wellFormed (TorqueSlider v dt) = (0 \<le> v \<and> v \<le> 100 \<and> 0 \<le> dt)"
| "wellFormed (AutoPilotButton dt) = (0 \<le> dt)"
| "wellFormed (BladeLengthOutSlider v dt) = (100 \<le> v \<and> v \<le> 1500 \<and> 0 \<le> dt)"
| "wellFormed (BladeLengthInSlider v dt) = (0 \<le> v \<and> v \<le> 800 \<and> 0 \<le> dt)"
| "wellFormed (BladeCountSlider v dt) = (5 \<le> v \<and> v \<le> 12 \<and> 0 \<le> dt)"

fun run :: "event list \<Rightarrow> world \<Rightarrow> world" where
  "run [] w = w"
| "run (e # es) w = run es (step e w)"


text \<open>
  The clamped controller target and the local \<^verbatim>\<open>currentTorque\<close> of a tick, as functions of
  the state before the tick.
\<close>

definition tickNewTorque :: "world \<Rightarrow> real" where
  "tickNewTorque w =
     newTorque (torque w) (tsr (physics w))
       (currentOptimalTSR (bladeCount w) (bladeLengthOut w) (bladeLengthIn w))"

definition tickAppliedTorque :: "world \<Rightarrow> real" where
  "tickAppliedTorque w =
     appliedTorque (isAutoPilot w) (torque w) (tsr (physics w))
       (currentOptimalTSR (bladeCount w) (bladeLengthOut w) (bladeLengthIn w))"

text \<open>
  The bounds of the inputs (the \<^verbatim>\<open>min\<close> and \<^verbatim>\<open>max\<close> of the sliders), and the range of the
  rotor outputs.
\<close>

definition inBounds :: "world \<Rightarrow> bool" where
  "inBounds w \<longleftrightarrow>
     0 \<le> envWindSpeed w \<and> envWindSpeed w \<le> 25 \<and>
     0 \<le> torque w \<and> torque w \<le> 100 \<and>
     5 \<le> bladeCount w \<and> bladeCount w \<le> 12 \<and>
     100 \<le> bladeLengthOut w \<and> bladeLengthOut w \<le> 1500 \<and>
     0 \<le> bladeLengthIn w \<and> bladeLengthIn w \<le> 800"

definition powerOk :: "physicsState \<Rightarrow> bool" where
  "powerOk ps \<longleftrightarrow> 0 \<le> tsr ps \<and> kw ps \<in> \<int> \<and> 0 \<le> kw ps \<and> kw ps \<le> 30"

text \<open>
  What holds of every state a run reaches: the inputs are within their bounds, the TSR
  lies between 0 and 7, a saturated stored power comes from a tick with wind above 3
  whose torque leaves the next tick's torque at 6.25 or more, and the runaway flag is not
  set while the wind is at most 3 and the deployment at least 0.5.
\<close>

definition sampledInv :: "world \<Rightarrow> bool" where
  "sampledInv w \<longleftrightarrow>
     inBounds w \<and> 0 \<le> tsr (physics w) \<and> tsr (physics w) \<le> 7 \<and>
     (30 \<le> kw (physics w) \<longrightarrow> 3 < envWindSpeed w \<and> 25/4 \<le> tickAppliedTorque w) \<and>
     (envWindSpeed w \<le> 3 \<and> 0.5 \<le> deploymentRef w \<longrightarrow> \<not> isRunaway (physics w))"

subsection \<open>Concrete states used to exercise the theorems\<close>

text \<open>The inputs of the specification's first scenario; they are the mount-time defaults.\<close>

definition scenarioInputs :: "world \<Rightarrow> bool" where
  "scenarioInputs w \<longleftrightarrow>
     envWindSpeed w = 12 \<and> torque w = 50 \<and> \<not> isAutoPilot w \<and>
     bladeCount w = 6 \<and> bladeLengthOut w = 380 \<and> bladeLengthIn w = 230"

text \<open>Wind 25 with the stored power saturated and the runaway flag clear.\<close>

definition wEntry :: world where
  "wEntry = initialWorld \<lparr> envWindSpeed := 25, physics := initialPhysics \<lparr> kw := 30 \<rparr> \<rparr>"

text \<open>Wind 25 with the runaway flag set.\<close>

definition wLatched :: world where
  "wLatched =
     initialWorld \<lparr> envWindSpeed := 25, physics := initialPhysics \<lparr> isRunaway := True \<rparr> \<rparr>"


text \<open>Autopilot on, wind 25, rotor in runaway at TSR 6.2, runaway already sampled.\<close>

definition wLatchedAuto :: world where
  "wLatchedAuto = initialWorld \<lparr> envWindSpeed := 25, isAutoPilot := True, uiRunaway := True,
      physics := initialPhysics \<lparr> tsr := 6.2, kw := 30, isRunaway := True \<rparr> \<rparr>"

text \<open>Autopilot on, wind 2, structure on the ground, grounded already sampled.\<close>

definition wGroundedAuto :: world where
  "wGroundedAuto = initialWorld \<lparr> envWindSpeed := 2, isAutoPilot := True, uiGrounded := True,
      deploymentRef := 0 \<rparr>"

text \<open>
  Wind 25, torque 100, autopilot on, runaway set, TSR 6, deployment 0.3: every input that
  could raise the target TSR, with the structure still below the deployment gate.
\<close>

definition wGated :: world where
  "wGated = initialWorld \<lparr> envWindSpeed := 25, torque := 100, isAutoPilot := True,
      physics := initialPhysics \<lparr> tsr := 6, isRunaway := True \<rparr>, deploymentRef := 0.3 \<rparr>"

text \<open>A short session: wind to 25, a frame, torque to 100, a frame.\<close>

definition sessionEvents :: "event list" where
  "sessionEvents =
     [WindSlider 25 (1/60), Frame (1/60), TorqueSlider 100 (1/60), Frame (1/60)]"

text \<open>A camera looking down the z axis from distance 1000, without yaw or pitch.\<close>

definition camFront :: cameraState where
  "camFront = \<lparr> theta = 0, phi = 0, radius = 1000, targetY = 0, targetX = 0, targetZ = 0 \<rparr>"

section \<open>Projections of one tick\<close>

lemma render_controls [simp]:
  "envWindSpeed (render dt w) = envWindSpeed w"
  "isAutoPilot (render dt w) = isAutoPilot w"
  "bladeCount (render dt w) = bladeCount w"
  "bladeLengthOut (render dt w) = bladeLengthOut w"
  "bladeLengthIn (render dt w) = bladeLengthIn w"
  "uiRunaway (render dt w) = uiRunaway w"
  "uiGrounded (render dt w) = uiGrounded w"
  "uiStatus (render dt w) = uiStatus w"
  by (simp_all add: render_def Let_def split: prod.split)

lemma render_deploymentRef:
  "deploymentRef (render dt w) = deployStep dt (envWindSpeed w) (deploymentRef w)"
  by (simp add: render_def Let_def split: prod.split)

lemma render_torque:
  "torque (render dt w) =
     storedTorque (isAutoPilot w) (torque w) (tsr (physics w))
       (currentOptimalTSR (bladeCount w) (bladeLengthOut w) (bladeLengthIn w))"
  by (simp add: render_def Let_def split: prod.split)

lemma render_tsr:
  "tsr (physics (render dt w)) = integrateTsr (tsr (physics w)) (tickTargetTSR dt w)"
  by (simp add: render_def tickTargetTSR_def Let_def split: prod.split)

lemma render_optimalTsr:
  "optimalTsr (physics (render dt w)) =
     currentOptimalTSR (bladeCount w) (bladeLengthOut w) (bladeLengthIn w)"
  by (simp add: render_def Let_def split: prod.split)

lemma render_isRunaway:
  "isRunaway (physics (render dt w)) =
     snd (targetStep (tickDepl dt w) (isRunaway (physics w)) (envWindSpeed w)
            (brakeRatio (appliedTorque (isAutoPilot w) (torque w) (tsr (physics w))
                (currentOptimalTSR (bladeCount w) (bladeLengthOut w) (bladeLengthIn w)))
              (envWindSpeed w))
            (currentOptimalTSR (bladeCount w) (bladeLengthOut w) (bladeLengthIn w))
            (currentMaxTSR (bladeCount w) (bladeLengthOut w) (bladeLengthIn w))
            (kw (physics w)))"
  by (simp add: render_def tickDepl_def Let_def split: prod.split)

lemma tickTargetTSR_eq:
  "tickTargetTSR dt w =
     fst (targetStep (tickDepl dt w) (isRunaway (physics w)) (envWindSpeed w)
            (brakeRatio (appliedTorque (isAutoPilot w) (torque w) (tsr (physics w))
                (currentOptimalTSR (bladeCount w) (bladeLengthOut w) (bladeLengthIn w)))
              (envWindSpeed w))
            (currentOptimalTSR (bladeCount w) (bladeLengthOut w) (bladeLengthIn w))
            (currentMaxTSR (bladeCount w) (bladeLengthOut w) (bladeLengthIn w))
            (kw (physics w)))"
  by (simp add: tickTargetTSR_def tickDepl_def Let_def)

lemma render_kw:
  "kw (physics (render dt w)) =
     kwOf (appliedTorque (isAutoPilot w) (torque w) (tsr (physics w))
             (currentOptimalTSR (bladeCount w) (bladeLengthOut w) (bladeLengthIn w)))
          (rpmOf (tsr (physics (render dt w))) (envWindSpeed w) (bladeLengthOut w))
          (bladeCount w)"
  by (simp add: render_def Let_def split: prod.split)



section \<open>Runs\<close>

lemma run_append: "run (es @ fs) w = run fs (run es w)"
  by (induction es arbitrary: w) simp_all

section \<open>Unfolding sets for evaluation\<close>

lemmas world_defs = initialWorld_def initialPhysics_def

lemmas tick_defs = tickDepl_def tickTargetTSR_def tickNewTorque_def tickAppliedTorque_def
  deployStep_def targetDeployment_def deplOf_def
  targetStep_def brakeRatio_def requiredTorqueForOptimal_def appliedTorque_def storedTorque_def
  newTorque_def MAX_SAFE_TORQUE_def currentOptimalTSR_def currentMaxTSR_def bladeCountFactor_def
  hollowFactor_def lengthFactor_def TSR_MAX_BASE_def integrateTsr_def inertia_def Let_def

section \<open>The runaway latch\<close>

text \<open>
  C1. In a tick whose clamped deployment is at least 0.5: a clear runaway flag is set by
  the tick only if the tick's target TSR exceeds 5.8 and the stored power is at least 30
  (and it is set exactly when, in addition, the brake ratio is below 1); a set flag with
  wind above 18 pins the target TSR to 6.2 and stays set; and a set flag is cleared by
  the tick exactly when the wind is at most 18. In a tick whose clamped deployment is
  below 0.5 the flag keeps its value. The clamped deployment of a tick is at least 0.5
  exactly when the deployment stored by the tick is.
\<close>

theorem runaway_latch:
  "(0.5 \<le> tickDepl dt w \<longrightarrow>
      (\<not> isRunaway (physics w) \<and> isRunaway (physics (render dt w))
         \<longrightarrow> tickTargetTSR dt w > 5.8 \<and> kw (physics w) \<ge> 30) \<and>
      (\<not> isRunaway (physics w) \<longrightarrow>
         (isRunaway (physics (render dt w)) \<longleftrightarrow>
            brakeRatio (tickAppliedTorque w) (envWindSpeed w) < 1 \<and>
            tickTargetTSR dt w > 5.8 \<and> kw (physics w) \<ge> 30)) \<and>
      (isRunaway (physics w) \<and> envWindSpeed w > 18
         \<longrightarrow> tickTargetTSR dt w = 6.2 \<and> isRunaway (physics (render dt w))) \<and>
      (isRunaway (physics w)
         \<longrightarrow> (\<not> isRunaway (physics (render dt w)) \<longleftrightarrow> envWindSpeed w \<le> 18))) \<and>
   (tickDepl dt w < 0.5 \<longrightarrow> isRunaway (physics (render dt w)) = isRunaway (physics w)) \<and>
   (0.5 \<le> tickDepl dt w \<longleftrightarrow> 0.5 \<le> deploymentRef (render dt w))"
proof -
  have "0.5 \<le> tickDepl dt w \<longleftrightarrow> 0.5 \<le> deploymentRef (render dt w)"
    by (simp add: tickDepl_def render_deploymentRef deplOf_def) linarith
  then show ?thesis
    by (auto simp add: render_isRunaway tickTargetTSR_eq tickAppliedTorque_def targetStep_def
        Let_def)
qed

theorem runaway_latch_witness:
  "0.5 \<le> tickDepl (1/60) wLatched \<and> tickTargetTSR (1/60) wLatched = 6.2 \<and>
   isRunaway (physics (render (1/60) wLatched)) \<and>
   0.5 \<le> tickDepl (1/60) wEntry \<and> \<not> isRunaway (physics wEntry) \<and>
   isRunaway (physics (render (1/60) wEntry)) \<and>
   tickTargetTSR (1/60) wEntry > 5.8 \<and> kw (physics wEntry) \<ge> 30"
proof -
  have h1: "0.5 \<le> tickDepl (1/60) wLatched"
    by (simp add: world_defs wLatched_def wEntry_def tick_defs)
  have p1: "isRunaway (physics wLatched) \<and> envWindSpeed wLatched > 18"
    by (simp add: world_defs wLatched_def wEntry_def)
  have c1: "tickTargetTSR (1/60) wLatched = 6.2 \<and> isRunaway (physics (render (1/60) wLatched))"
    using runaway_latch [of "1/60" wLatched] h1 p1 by blast
  have h2: "0.5 \<le> tickDepl (1/60) wEntry"
    by (simp add: world_defs wLatched_def wEntry_def tick_defs)
  have p2: "\<not> isRunaway (physics wEntry) \<and> isRunaway (physics (render (1/60) wEntry))"
    by (simp add: render_isRunaway) (simp add: world_defs wLatched_def wEntry_def tick_defs power2_eq_square)
  have c2: "tickTargetTSR (1/60) wEntry > 5.8 \<and> kw (physics wEntry) \<ge> 30"
    using runaway_latch [of "1/60" wEntry] h2 p2 by blast
  show ?thesis using h1 c1 h2 p2 c2 by blast
qed


section \<open>The default scenario\<close>

lemma scenario_tick:
  assumes "scenarioInputs w" "\<not> isRunaway (physics w)" "0.5 \<le> tickDepl dt w"
  shows "tickTargetTSR dt w = 5.35625"
    and "\<not> isRunaway (physics (render dt w))"
    and "scenarioInputs (render dt w)"
proof -
  show "tickTargetTSR dt w = 5.35625"
    using assms unfolding tickTargetTSR_eq
    by (simp add: scenarioInputs_def tick_defs power2_eq_square)
  show "\<not> isRunaway (physics (render dt w))"
    using assms unfolding render_isRunaway
    by (simp add: scenarioInputs_def tick_defs power2_eq_square)
  show "scenarioInputs (render dt w)"
    using assms by (simp add: scenarioInputs_def render_torque storedTorque_def)
qed

lemma flying_stays_deployed:
  assumes "envWindSpeed w > 3" "deploymentRef w = 1"
  shows "deploymentRef (render dt w) = 1" "tickDepl dt w = 1"
  using assms by (simp_all add: render_deploymentRef tickDepl_def deployStep_def targetDeployment_def deplOf_def)

lemma scenario_run:
  assumes "scenarioInputs w" "\<not> isRunaway (physics w)" "deploymentRef w = 1"
  shows "tsr (physics (run (map Frame dts) w)) =
           5.35625 - (5.35625 - tsr (physics w)) * 0.95 ^ length dts"
  using assms
proof (induction dts arbitrary: w)
  case Nil
  then show ?case by simp
next
  case (Cons dt dts)
  have w3: "envWindSpeed w > 3" using Cons.prems(1) by (simp add: scenarioInputs_def)
  have d: "tickDepl dt w = 1" "deploymentRef (render dt w) = 1"
    using flying_stays_deployed [OF w3 Cons.prems(3)] by simp_all
  have h: "0.5 \<le> tickDepl dt w" using d by simp
  note t = scenario_tick [OF Cons.prems(1) Cons.prems(2) h]
  have ih: "tsr (physics (run (map Frame dts) (render dt w))) =
          5.35625 - (5.35625 - tsr (physics (render dt w))) * 0.95 ^ length dts"
    using Cons.IH [OF t(3) t(2) d(2)] .
  have nxt: "tsr (physics (render dt w)) = tsr (physics w) + (5.35625 - tsr (physics w)) * 0.05"
    by (simp add: render_tsr t(1) integrateTsr_def inertia_def)
  have gap: "5.35625 - tsr (physics (render dt w)) = (5.35625 - tsr (physics w)) * 0.95"
    unfolding nxt by (simp add: algebra_simps)
  have "tsr (physics (run (map Frame dts) (render dt w))) =
          5.35625 - ((5.35625 - tsr (physics w)) * 0.95) * 0.95 ^ length dts"
    by (simp only: ih gap)
  then show ?case
    by simp
qed

text \<open>
  With wind 12, torque 50, autopilot off, 6 blades, outer length 380 and inner length 230
  the tick does not compute an optimal TSR of 4.0, a maximal TSR of 6.0 or a target of
  5.0: the hollow factor \<open>(1 - 230/800) * 0.5 = 0.35625\<close> is added to both coefficients.
\<close>

theorem scenario_default_counterexample:
  "optimalTsr (physics (render (1/60) initialWorld)) = 4.35625 \<and>
   optimalTsr (physics (render (1/60) initialWorld)) \<noteq> 4.0 \<and>
   currentMaxTSR 6 380 230 \<noteq> 6.0 \<and>
   tickTargetTSR (1/60) initialWorld \<noteq> 5.0"
  by (simp add: render_optimalTsr) (simp add: world_defs tick_defs power2_eq_square)

text \<open>
  C3, amended. For these inputs, in a tick that is not in runaway and whose clamped
  deployment is at least 0.5: the optimal TSR is 4.35625 and the maximal TSR 6.35625;
  the required torque is 100 and the brake ratio 0.5; the target TSR is
  \<open>4.35625 + 0.5 * (6.35625 - 4.35625) = 5.35625\<close>; the TSR moves toward the target by
  5 percent of the gap; and from the mount-time state, after \<open>n\<close> frames, the TSR is
  \<open>5.35625 * (1 - 0.95 ^ n)\<close>.
\<close>

theorem scenario_default_amended:
  assumes "scenarioInputs w" "\<not> isRunaway (physics w)" "0.5 \<le> tickDepl dt w"
  shows "optimalTsr (physics (render dt w)) = 4.35625 \<and>
         currentMaxTSR (bladeCount w) (bladeLengthOut w) (bladeLengthIn w) = 6.35625 \<and>
         requiredTorqueForOptimal (envWindSpeed w) = 100 \<and>
         brakeRatio (torque w) (envWindSpeed w) = 0.5 \<and>
         tickTargetTSR dt w = 4.35625 + 0.5 * (6.35625 - 4.35625) \<and>
         tickTargetTSR dt w = 5.35625 \<and>
         tsr (physics (render dt w)) = tsr (physics w) + (5.35625 - tsr (physics w)) * 0.05 \<and>
         tsr (physics (run (map Frame dts) initialWorld)) = 5.35625 * (1 - 0.95 ^ length dts)"
proof -
  have a: "optimalTsr (physics (render dt w)) = 4.35625"
    using assms(1) by (simp add: render_optimalTsr scenarioInputs_def tick_defs)
  have b: "currentMaxTSR (bladeCount w) (bladeLengthOut w) (bladeLengthIn w) = 6.35625"
    using assms(1) by (simp add: scenarioInputs_def tick_defs)
  have c: "requiredTorqueForOptimal (envWindSpeed w) = 100"
    using assms(1) by (simp add: scenarioInputs_def tick_defs power2_eq_square)
  have d: "brakeRatio (torque w) (envWindSpeed w) = 0.5"
    using assms(1) by (simp add: scenarioInputs_def tick_defs power2_eq_square)
  have e: "tickTargetTSR dt w = 5.35625"
    using scenario_tick(1) [OF assms] .
  have f: "tsr (physics (render dt w)) = tsr (physics w) + (5.35625 - tsr (physics w)) * 0.05"
    by (simp add: render_tsr e integrateTsr_def inertia_def)
  have "scenarioInputs initialWorld" "\<not> isRunaway (physics initialWorld)"
    "deploymentRef initialWorld = 1"
    by (simp_all add: scenarioInputs_def world_defs)
  from scenario_run [OF this, of dts]
  have g: "tsr (physics (run (map Frame dts) initialWorld)) = 5.35625 * (1 - 0.95 ^ length dts)"
    by (simp add: world_defs algebra_simps)
  from a b c d e f g show ?thesis by simp
qed

theorem scenario_default_amended_witness:
  "scenarioInputs initialWorld \<and> \<not> isRunaway (physics initialWorld) \<and>
   0.5 \<le> tickDepl (1/60) initialWorld \<and>
   tickTargetTSR (1/60) initialWorld = 5.35625 \<and>
   tsr (physics (render (1/60) initialWorld)) = 0.2678125 \<and>
   tsr (physics (run (map Frame [1/60, 1/60]) initialWorld)) = 0.522234375"
proof -
  have h: "scenarioInputs initialWorld" "\<not> isRunaway (physics initialWorld)"
    "0.5 \<le> tickDepl (1/60) initialWorld"
    by (simp_all add: scenarioInputs_def world_defs tick_defs)
  from scenario_default_amended [OF h, of "[1/60, 1/60]"]
  have "tickTargetTSR (1/60) initialWorld = 5.35625 \<and>
        tsr (physics (render (1/60) initialWorld)) = 0.2678125 \<and>
        tsr (physics (run (map Frame [1/60, 1/60]) initialWorld)) = 0.522234375"
    by (simp add: world_defs power2_eq_square)
  with h show ?thesis by simp
qed

section \<open>Autopilot\<close>

lemma newTorque_range: "0 \<le> newTorque trq tsr0 opt \<and> newTorque trq tsr0 opt \<le> 80"
  by (simp add: newTorque_def MAX_SAFE_TORQUE_def Let_def)




text \<open>
  The autopilot setting is not switched off by runaway or by grounding. In a runaway
  state with autopilot on and the runaway flag sampled, a click on the disabled button
  changes nothing, the setting stays on, and the next tick moves the stored torque from
  50 to 50.36875; likewise on the ground, where the next tick moves it to 49.12875.
\<close>

theorem autopilot_not_forced_off_counterexample:
  "isRunaway (physics wLatchedAuto) \<and> uiRunaway wLatchedAuto \<and> isAutoPilot wLatchedAuto \<and>
   isAutoPilot (step (AutoPilotButton (1/60)) (uiInterval wLatchedAuto)) \<and>
   isAutoPilot (render (1/60) wLatchedAuto) \<and>
   isRunaway (physics (render (1/60) wLatchedAuto)) \<and>
   torque wLatchedAuto = 50 \<and>
   torque (render (1/60) wLatchedAuto) = 50.36875 \<and>
   uiGrounded (uiInterval wGroundedAuto) \<and> isAutoPilot wGroundedAuto \<and>
   isAutoPilot (render (1/60) (step (AutoPilotButton (1/60)) (uiInterval wGroundedAuto))) \<and>
   torque wGroundedAuto = 50 \<and>
   torque (render (1/60) wGroundedAuto) = 49.12875"
  by (simp add: render_torque render_isRunaway)
     (simp add: world_defs wLatchedAuto_def wGroundedAuto_def tick_defs uiInterval_def groundedFlag_def)

text \<open>
  C9, amended. While the sampled runaway flag or the sampled grounded flag is true the
  autopilot button is disabled: a click leaves the state unchanged. No event changes the
  autopilot setting except a click on the button while both flags are false; in
  particular no tick and no sample switches it off. A tick with autopilot on whose
  controller target is more than 0.5 away from the stored torque moves the stored torque
  by a tenth of the gap, whatever the runaway flag and the deployment are.
\<close>

theorem autopilot_toggle_amended:
  "(uiRunaway w \<or> uiGrounded w \<longrightarrow> step (AutoPilotButton dt) w = w) \<and>
   (isAutoPilot (step e w) \<noteq> isAutoPilot w \<longrightarrow>
      (\<exists>d. e = AutoPilotButton d) \<and> \<not> uiRunaway w \<and> \<not> uiGrounded w) \<and>
   (isAutoPilot w \<and> \<bar>tickNewTorque w - torque w\<bar> > 0.5 \<longrightarrow>
      torque (render dt w) = torque w + (tickNewTorque w - torque w) * 0.1)"
proof -
  have a: "uiRunaway w \<or> uiGrounded w \<longrightarrow> step (AutoPilotButton dt) w = w"
    by simp
  have b: "isAutoPilot (step e w) \<noteq> isAutoPilot w \<longrightarrow>
      (\<exists>d. e = AutoPilotButton d) \<and> \<not> uiRunaway w \<and> \<not> uiGrounded w"
    by (cases e) (simp_all add: uiInterval_def)
  have c: "isAutoPilot w \<and> \<bar>tickNewTorque w - torque w\<bar> > 0.5 \<longrightarrow>
      torque (render dt w) = torque w + (tickNewTorque w - torque w) * 0.1"
    by (simp add: render_torque storedTorque_def tickNewTorque_def)
  from a b c show ?thesis by blast
qed

theorem autopilot_toggle_amended_witness:
  "uiRunaway wLatchedAuto \<and> step (AutoPilotButton (1/60)) wLatchedAuto = wLatchedAuto \<and>
   isAutoPilot wLatchedAuto \<and> \<bar>tickNewTorque wLatchedAuto - torque wLatchedAuto\<bar> > 0.5 \<and>
   torque (render (1/60) wLatchedAuto) = 50.36875"
proof -
  have u: "uiRunaway wLatchedAuto" "isAutoPilot wLatchedAuto"
    by (simp_all add: world_defs wLatchedAuto_def)
  have n: "tickNewTorque wLatchedAuto = 53.6875" "torque wLatchedAuto = 50"
    by (simp_all add: world_defs wLatchedAuto_def tick_defs)
  have gap: "\<bar>tickNewTorque wLatchedAuto - torque wLatchedAuto\<bar> > 0.5"
    by (simp add: n)
  note t = autopilot_toggle_amended [of wLatchedAuto "1/60" UiSample]
  from t u have s: "step (AutoPilotButton (1/60)) wLatchedAuto = wLatchedAuto"
    by blast
  from t u gap
  have "torque (render (1/60) wLatchedAuto)
          = torque wLatchedAuto + (tickNewTorque wLatchedAuto - torque wLatchedAuto) * 0.1"
    by blast
  then have "torque (render (1/60) wLatchedAuto) = 50.36875"
    by (simp add: n)
  with u s gap show ?thesis by blast
qed

section \<open>Range of the stored deployment\<close>

text \<open>
  C8. The ref is declared with the comment \<^verbatim>\<open>0.0 (Grounded) to 1.0 (Flying)\<close>, and the
  update is an explicit Euler step whose size is not limited. From the mount-time state,
  setting the wind slider to 2 (its tick comes 16 ms after the previous one and leaves
  0.9872) and then a frame that arrives 2 seconds later store
  \<open>0.9872 + (0 - 0.9872) * 2 * 0.8 = -0.59232\<close>, below 0; the tick's own \<open>depl\<close> is clamped
  to 0.
\<close>

theorem deployment_range_failing_input:
  "wellFormed (WindSlider 2 0.016) \<and> wellFormed (Frame 2) \<and>
   deploymentRef (run [WindSlider 2 0.016] initialWorld) = 0.9872 \<and>
   deploymentRef (run [WindSlider 2 0.016, Frame 2] initialWorld) = - 0.59232 \<and>
   deploymentRef (run [WindSlider 2 0.016, Frame 2] initialWorld) < 0 \<and>
   tickDepl 2 (run [WindSlider 2 0.016] initialWorld) = 0"
  by (simp add: render_deploymentRef tickDepl_def)
     (simp add: world_defs deployStep_def targetDeployment_def deplOf_def)

section \<open>Grounding: convergence of the deployment and the gate on the target TSR\<close>

lemma run_frames_wind: "envWindSpeed (run (map Frame dts) w) = envWindSpeed w"
  by (induction dts arbitrary: w) simp_all

lemma deployStep_calm:
  assumes "wind \<le> 3"
  shows "deployStep dt wind d = (if \<bar>d\<bar> > 0.001 then d * (1 - dt * 0.8) else 0)"
  using assms by (simp add: deployStep_def targetDeployment_def Let_def algebra_simps)

lemma deployStep_contracts:
  assumes "wind \<le> 3" "\<bar>1 - dt * 0.8\<bar> \<le> q"
  shows "\<bar>deployStep dt wind d\<bar> \<le> q * \<bar>d\<bar>"
proof -
  have q0: "0 \<le> q" using assms(2) by linarith
  show ?thesis
  proof (cases "\<bar>d\<bar> > 0.001")
    case True
    then have "\<bar>deployStep dt wind d\<bar> = \<bar>d\<bar> * \<bar>1 - dt * 0.8\<bar>"
      by (simp only: deployStep_calm [OF assms(1)] if_True abs_mult)
    also have "\<dots> \<le> \<bar>d\<bar> * q"
      using assms(2) by (intro mult_left_mono) simp_all
    finally show ?thesis by (simp add: mult.commute)
  next
    case False
    then have "deployStep dt wind d = 0"
      by (simp only: deployStep_calm [OF assms(1)] if_False)
    then show ?thesis using q0 by simp
  qed
qed

lemma run_frames_contract:
  assumes "envWindSpeed w \<le> 3" "\<forall>dt\<in>set dts. \<bar>1 - dt * 0.8\<bar> \<le> q" "0 \<le> q"
  shows "\<bar>deploymentRef (run (map Frame dts) w)\<bar> \<le> q ^ length dts * \<bar>deploymentRef w\<bar>"
  using assms
proof (induction dts arbitrary: w)
  case Nil
  then show ?case by simp
next
  case (Cons dt dts)
  have w': "envWindSpeed (render dt w) \<le> 3" using Cons.prems(1) by simp
  have "\<bar>deploymentRef (run (map Frame dts) (render dt w))\<bar>
          \<le> q ^ length dts * \<bar>deploymentRef (render dt w)\<bar>"
    using Cons.IH [OF w'] Cons.prems by simp
  also have "\<bar>deploymentRef (render dt w)\<bar> \<le> q * \<bar>deploymentRef w\<bar>"
    using deployStep_contracts [of "envWindSpeed w" dt q "deploymentRef w"] Cons.prems
    by (simp add: render_deploymentRef)
  finally have "\<bar>deploymentRef (run (map Frame dts) (render dt w))\<bar>
          \<le> q ^ length dts * (q * \<bar>deploymentRef w\<bar>)"
    using Cons.prems(3) by (simp add: mult_left_mono)
  then show ?case by (simp add: mult.assoc mult.left_commute)
qed

lemma run_frames_snap:
  assumes "envWindSpeed w \<le> 3" "\<bar>deploymentRef w\<bar> \<le> 0.001" "dts \<noteq> []"
  shows "deploymentRef (run (map Frame dts) w) = 0"
  using assms
proof (induction dts arbitrary: w)
  case Nil
  then show ?case by simp
next
  case (Cons dt dts)
  have z: "deploymentRef (render dt w) = 0"
    using Cons.prems(1,2) by (simp add: render_deploymentRef deployStep_calm)
  show ?case
  proof (cases "dts = []")
    case True
    then show ?thesis using z by simp
  next
    case False
    have "deploymentRef (run (map Frame dts) (render dt w)) = 0"
      using Cons.IH [of "render dt w"] Cons.prems(1) z False by simp
    then show ?thesis by simp
  qed
qed

lemma geometric_small:
  assumes "0 \<le> q" "q < 1"
  shows "\<exists>n. q ^ n * \<bar>d\<bar> \<le> (0.001::real)"
proof (cases "d = 0")
  case True
  then show ?thesis by simp
next
  case False
  then have pos: "0 < 0.001 / \<bar>d\<bar>" by simp
  obtain n where "q ^ n < 0.001 / \<bar>d\<bar>"
    using real_arch_pow_inv [OF pos assms(2)] by blast
  then have "q ^ n * \<bar>d\<bar> < 0.001"
    using False by (simp add: field_simps)
  then show ?thesis by (intro exI [of _ n]) simp
qed

lemma run_frames_reach_zero:
  assumes "envWindSpeed w \<le> 3" "\<forall>dt\<in>set dts. \<bar>1 - dt * 0.8\<bar> \<le> q" "0 \<le> q"
    "q ^ n * \<bar>deploymentRef w\<bar> \<le> 0.001" "n < length dts"
  shows "deploymentRef (run (map Frame dts) w) = 0"
proof -
  define pre where "pre = take n dts"
  define post where "post = drop n dts"
  have split: "dts = pre @ post" by (simp add: pre_def post_def)
  have len: "length pre = n" using assms(5) by (simp add: pre_def)
  have ne: "post \<noteq> []" using assms(5) by (simp add: post_def)
  have pre_ok: "\<forall>dt\<in>set pre. \<bar>1 - dt * 0.8\<bar> \<le> q"
    using assms(2) by (auto simp: pre_def dest: in_set_takeD)
  define v where "v = run (map Frame pre) w"
  have "\<bar>deploymentRef v\<bar> \<le> q ^ n * \<bar>deploymentRef w\<bar>"
    using run_frames_contract [OF assms(1) pre_ok assms(3)] len by (simp add: v_def)
  then have small: "\<bar>deploymentRef v\<bar> \<le> 0.001" using assms(4) by linarith
  have calm: "envWindSpeed v \<le> 3" using assms(1) by (simp add: v_def run_frames_wind)
  have "run (map Frame dts) w = run (map Frame post) v"
    by (simp add: split v_def run_append)
  then show ?thesis using run_frames_snap [OF calm small ne] by simp
qed

lemma gate_target:
  assumes "tickDepl dt w < 0.5"
  shows "tickTargetTSR dt w = 0"
  using assms by (simp add: tickTargetTSR_eq targetStep_def)

text \<open>
  Without a bound on the frame durations the deployment need not converge at wind 2.
  After the wind slider is set to 2 (its tick, 1/60 s after the previous one, leaves
  74/75), frames of 2.5 seconds send the deployment to -74/75 and back to 74/75, and a
  frame of duration 0 leaves it where it is.
\<close>

theorem deployment_convergence_counterexample:
  "envWindSpeed (step (WindSlider 2 (1/60)) initialWorld) \<le> 3 \<and>
   deploymentRef (step (WindSlider 2 (1/60)) initialWorld) = 74/75 \<and>
   deploymentRef (run [WindSlider 2 (1/60), Frame 2.5] initialWorld) = - (74/75) \<and>
   deploymentRef (run [WindSlider 2 (1/60), Frame 2.5, Frame 2.5] initialWorld) = 74/75 \<and>
   deploymentRef (run [WindSlider 2 (1/60), Frame 0] initialWorld) = 74/75"
  by (simp add: render_deploymentRef) (simp add: world_defs tick_defs)

text \<open>
  C5, amended. For wind at most 3 the deployment target is 0. If moreover every frame
  duration \<open>dt\<close> satisfies \<open>\<bar>1 - 0.8 * dt\<bar> \<le> q\<close> for one \<open>q < 1\<close> (durations bounded away
  from 0 and from 2.5 seconds), then the distance of the deployment to 0 shrinks by the
  factor \<open>q\<close> per frame, some \<open>n\<close> has \<open>q ^ n * \<bar>deployment\<bar> \<le> 0.001\<close>, and after more than \<open>n\<close>
  frames the deployment is exactly 0. In every tick whose clamped deployment is below
  0.5 the target TSR is 0, whatever the torque, the autopilot setting, the wind and the
  runaway flag are, and the TSR falls by 5 percent.
\<close>

theorem deployment_gate_amended:
  "(envWindSpeed w \<le> 3 \<longrightarrow> targetDeployment (envWindSpeed w) = 0) \<and>
   (envWindSpeed w \<le> 3 \<and> 0 \<le> q \<and> q < 1 \<and> (\<forall>dt\<in>set dts. \<bar>1 - dt * 0.8\<bar> \<le> q) \<longrightarrow>
      (\<exists>n. q ^ n * \<bar>deploymentRef w\<bar> \<le> 0.001) \<and>
      (\<forall>n. q ^ n * \<bar>deploymentRef w\<bar> \<le> 0.001 \<and> n < length dts \<longrightarrow>
           deploymentRef (run (map Frame dts) w) = 0)) \<and>
   (tickDepl dt v < 0.5 \<longrightarrow>
      tickTargetTSR dt v = 0 \<and> tsr (physics (render dt v)) = tsr (physics v) * 0.95)"
proof -
  have a: "envWindSpeed w \<le> 3 \<longrightarrow> targetDeployment (envWindSpeed w) = 0"
    by (simp add: targetDeployment_def)
  have b: "envWindSpeed w \<le> 3 \<and> 0 \<le> q \<and> q < 1 \<and> (\<forall>dt\<in>set dts. \<bar>1 - dt * 0.8\<bar> \<le> q) \<longrightarrow>
      (\<exists>n. q ^ n * \<bar>deploymentRef w\<bar> \<le> 0.001) \<and>
      (\<forall>n. q ^ n * \<bar>deploymentRef w\<bar> \<le> 0.001 \<and> n < length dts \<longrightarrow>
           deploymentRef (run (map Frame dts) w) = 0)"
    using geometric_small [of q "deploymentRef w"] run_frames_reach_zero [of w dts q]
    by blast
  have c: "tickDepl dt v < 0.5 \<longrightarrow>
      tickTargetTSR dt v = 0 \<and> tsr (physics (render dt v)) = tsr (physics v) * 0.95"
    by (simp add: render_tsr gate_target integrateTsr_def inertia_def)
  from a b c show ?thesis by blast
qed

theorem deployment_gate_amended_witness:
  "envWindSpeed (step (WindSlider 2 (1/60)) initialWorld) \<le> 3 \<and>
   \<bar>1 - 1 * 0.8\<bar> \<le> (1/5::real) \<and>
   (1/5) ^ 5 * \<bar>deploymentRef (step (WindSlider 2 (1/60)) initialWorld)\<bar> \<le> (0.001::real) \<and>
   deploymentRef (run (map Frame [1, 1, 1, 1, 1, 1]) (step (WindSlider 2 (1/60)) initialWorld)) = 0 \<and>
   tickDepl (1/60) wGated < 0.5 \<and> isRunaway (physics wGated) \<and> isAutoPilot wGated \<and>
   tickTargetTSR (1/60) wGated = 0 \<and> tsr (physics (render (1/60) wGated)) = 5.7"
proof -
  let ?w = "step (WindSlider 2 (1/60)) initialWorld"
  let ?dts = "[1, 1, 1, 1, 1, 1] :: real list"
  have h1: "envWindSpeed ?w \<le> 3" by (simp add: world_defs wGated_def)
  have d0: "deploymentRef ?w = 74/75"
    by (simp add: render_deploymentRef) (simp add: world_defs tick_defs)
  have h2: "\<forall>dt\<in>set ?dts. \<bar>1 - dt * 0.8\<bar> \<le> (1/5::real)" by simp
  have h3: "(1/5) ^ 5 * \<bar>deploymentRef ?w\<bar> \<le> (0.001::real)"
    by (simp only: d0) (simp add: power_divide)
  have h4: "(5::nat) < length ?dts" by simp
  have q: "(0::real) \<le> 1/5" "(1/5::real) < 1" by simp_all
  note t = deployment_gate_amended [of ?w "1/5" ?dts "1/60" wGated]
  from t h1 h2 q have
    "\<forall>n. (1/5) ^ n * \<bar>deploymentRef ?w\<bar> \<le> 0.001 \<and> n < length ?dts \<longrightarrow>
           deploymentRef (run (map Frame ?dts) ?w) = 0"
    by blast
  with h3 h4 have c1: "deploymentRef (run (map Frame ?dts) ?w) = 0" by blast
  have g: "tickDepl (1/60) wGated < 0.5" by (simp add: world_defs wGated_def tick_defs)
  have f: "isRunaway (physics wGated)" "isAutoPilot wGated" "tsr (physics wGated) = 6"
    by (simp_all add: world_defs wGated_def)
  from t g have "tickTargetTSR (1/60) wGated = 0 \<and>
      tsr (physics (render (1/60) wGated)) = tsr (physics wGated) * 0.95"
    by blast
  then have c2: "tickTargetTSR (1/60) wGated = 0 \<and> tsr (physics (render (1/60) wGated)) = 5.7"
    by (simp add: f)
  have h5: "\<bar>1 - 1 * 0.8\<bar> \<le> (1/5::real)" by simp
  from h1 h5 h3 c1 g f c2 show ?thesis by blast
qed

section \<open>Range of the rotor outputs\<close>

lemma optimal_positive:
  assumes "bc \<le> 12" "100 \<le> bout" "bin \<le> 800"
  shows "0 < currentOptimalTSR bc bout bin"
proof -
  have a: "bladeCountFactor bc \<le> 3 / 2"
    using assms(1) by (simp add: bladeCountFactor_def)
  have b: "0 \<le> hollowFactor bin"
    using assms(3) by (simp add: hollowFactor_def)
  have c: "- (7 / 125) \<le> lengthFactor bout"
    using assms(2) by (simp add: lengthFactor_def)
  show ?thesis
    unfolding currentOptimalTSR_def using a b c by linarith
qed

lemma max_above_optimal:
  "currentMaxTSR bc bout bin = currentOptimalTSR bc bout bin + 2"
  by (simp add: currentMaxTSR_def currentOptimalTSR_def TSR_MAX_BASE_def)

lemma targetStep_nonneg:
  assumes "0 \<le> opt"
  shows "0 \<le> fst (targetStep depl runaway wind br opt (opt + 2) kw0)"
proof -
  have "br < 1 \<Longrightarrow> 0 \<le> opt + (1 - br) * 2" using assms by simp
  then show ?thesis using assms
    by (simp add: targetStep_def Let_def)
qed

lemma integrateTsr_nonneg:
  assumes "0 \<le> t0" "0 \<le> target"
  shows "0 \<le> integrateTsr t0 target"
proof -
  have "integrateTsr t0 target = 0.95 * t0 + 0.05 * target"
    by (simp add: integrateTsr_def inertia_def field_simps)
  then show ?thesis using assms by simp
qed

lemma kwOf_range: "kwOf ct r bc \<in> \<int> \<and> 0 \<le> kwOf ct r bc \<and> kwOf ct r bc \<le> 30"
proof -
  define k where "k = \<lfloor>(ct / 100) * (r / 32) * 30 * (1 + ((bc - 6) * 0.1))\<rfloor>"
  have "kwOf ct r bc = min 30 (max 0 (of_int k))"
    by (simp add: kwOf_def Let_def k_def)
  also have "\<dots> = of_int (min 30 (max 0 k))"
    by (simp add: min_def max_def)
  finally have eq: "kwOf ct r bc = of_int (min 30 (max 0 k))" .
  have "0 \<le> min 30 (max 0 k)" "min 30 (max 0 k) \<le> 30" by simp_all
  then have "(0::real) \<le> of_int (min 30 (max 0 k))" "of_int (min 30 (max 0 k)) \<le> (30::real)"
    by linarith+
  then show ?thesis unfolding eq by simp
qed

lemma storedTorque_range:
  assumes "0 \<le> trq" "trq \<le> 100"
  shows "0 \<le> storedTorque ap trq t0 opt \<and> storedTorque ap trq t0 opt \<le> 100"
proof -
  define nt where "nt = newTorque trq t0 opt"
  have nt: "0 \<le> nt" "nt \<le> 80" using newTorque_range [of trq t0 opt] by (simp_all add: nt_def)
  have "trq + (nt - trq) * 0.1 = 0.9 * trq + 0.1 * nt" by (simp add: field_simps)
  then have "0 \<le> trq + (nt - trq) * 0.1 \<and> trq + (nt - trq) * 0.1 \<le> 100"
    using nt assms by simp
  then show ?thesis using assms by (simp add: storedTorque_def nt_def)
qed

lemma render_powerOk:
  assumes "bladeCount w \<le> 12" "100 \<le> bladeLengthOut w" "bladeLengthIn w \<le> 800"
    "0 \<le> tsr (physics w)"
  shows "powerOk (physics (render dt w))"
proof -
  have opt: "0 \<le> currentOptimalTSR (bladeCount w) (bladeLengthOut w) (bladeLengthIn w)"
    using optimal_positive [OF assms(1,2,3)] by simp
  have "0 \<le> tickTargetTSR dt w"
    unfolding tickTargetTSR_eq max_above_optimal by (rule targetStep_nonneg [OF opt])
  then have "0 \<le> tsr (physics (render dt w))"
    using assms(4) by (simp add: render_tsr integrateTsr_nonneg)
  then show ?thesis
    using kwOf_range by (simp add: powerOk_def render_kw)
qed

lemma render_inBounds:
  assumes "inBounds w"
  shows "inBounds (render dt w)"
  using assms storedTorque_range [of "torque w" "isAutoPilot w" "tsr (physics w)"
      "currentOptimalTSR (bladeCount w) (bladeLengthOut w) (bladeLengthIn w)"]
  by (simp add: inBounds_def render_torque)

lemma tick_invariant:
  assumes "inBounds v" "powerOk (physics v)"
  shows "inBounds (render dt v) \<and> powerOk (physics (render dt v))"
proof -
  have "powerOk (physics (render dt v))"
    using assms by (intro render_powerOk) (simp_all add: inBounds_def powerOk_def)
  then show ?thesis using render_inBounds [OF assms(1)] by simp
qed

lemma step_invariant:
  assumes "wellFormed e" "inBounds w" "powerOk (physics w)"
  shows "inBounds (step e w) \<and> powerOk (physics (step e w))"
proof (cases e)
  case (Frame dt)
  then show ?thesis using tick_invariant [OF assms(2,3)] by simp
next
  case UiSample
  then show ?thesis using assms by (simp add: inBounds_def uiInterval_def)
next
  case (WindSlider v dt)
  have "inBounds (w \<lparr> envWindSpeed := of_int v \<rparr>)"
    using assms WindSlider by (simp add: inBounds_def)
  then show ?thesis using WindSlider assms(3) by (simp add: tick_invariant)
next
  case (TorqueSlider v dt)
  have "inBounds (w \<lparr> torque := of_int v \<rparr>)"
    using assms TorqueSlider by (simp add: inBounds_def)
  then show ?thesis using TorqueSlider assms(2,3) by (simp add: tick_invariant)
next
  case (AutoPilotButton dt)
  have "inBounds (w \<lparr> isAutoPilot := \<not> isAutoPilot w \<rparr>)"
    using assms by (simp add: inBounds_def)
  then show ?thesis using AutoPilotButton assms(2,3) by (simp add: tick_invariant)
next
  case (BladeLengthOutSlider v dt)
  have "inBounds (w \<lparr> bladeLengthOut := of_int v \<rparr>)"
    using assms BladeLengthOutSlider by (simp add: inBounds_def)
  then show ?thesis using BladeLengthOutSlider assms(3) by (simp add: tick_invariant)
next
  case (BladeLengthInSlider v dt)
  have "inBounds (w \<lparr> bladeLengthIn := of_int v \<rparr>)"
    using assms BladeLengthInSlider by (simp add: inBounds_def)
  then show ?thesis using BladeLengthInSlider assms(3) by (simp add: tick_invariant)
next
  case (BladeCountSlider v dt)
  have "inBounds (w \<lparr> bladeCount := of_int v \<rparr>)"
    using assms BladeCountSlider by (simp add: inBounds_def)
  then show ?thesis using BladeCountSlider assms(3) by (simp add: tick_invariant)
qed

lemma run_invariant:
  assumes "\<forall>e\<in>set es. wellFormed e" "inBounds w" "powerOk (physics w)"
  shows "inBounds (run es w) \<and> powerOk (physics (run es w))"
  using assms
proof (induction es arbitrary: w)
  case Nil
  then show ?case by simp
next
  case (Cons e es)
  have "inBounds (step e w) \<and> powerOk (physics (step e w))"
    using Cons.prems by (intro step_invariant) simp_all
  then show ?case using Cons.IH [of "step e w"] Cons.prems(1) by simp
qed

text \<open>
  C7. A tick from a state whose inputs are within their bounds and whose TSR is not
  negative leaves a TSR that is not negative and a power that is an integer between 0
  and 30. Hence along every run of well-formed events from the mount-time state (TSR 0)
  the inputs stay within their bounds, the TSR is never negative and the power is an
  integer between 0 and 30.
\<close>

theorem power_tsr_invariant:
  "(inBounds w \<and> 0 \<le> tsr (physics w) \<longrightarrow>
      0 \<le> tsr (physics (render dt w)) \<and> kw (physics (render dt w)) \<in> \<int> \<and>
      0 \<le> kw (physics (render dt w)) \<and> kw (physics (render dt w)) \<le> 30) \<and>
   ((\<forall>e\<in>set es. wellFormed e) \<longrightarrow>
      inBounds (run es initialWorld) \<and>
      0 \<le> tsr (physics (run es initialWorld)) \<and> kw (physics (run es initialWorld)) \<in> \<int> \<and>
      0 \<le> kw (physics (run es initialWorld)) \<and> kw (physics (run es initialWorld)) \<le> 30)"
proof -
  have a: "inBounds w \<and> 0 \<le> tsr (physics w) \<longrightarrow> powerOk (physics (render dt w))"
    using render_powerOk [of w dt] by (simp add: inBounds_def)
  have i: "inBounds initialWorld" "powerOk (physics initialWorld)"
    by (simp_all add: inBounds_def powerOk_def initialWorld_def initialPhysics_def)
  have b: "(\<forall>e\<in>set es. wellFormed e) \<longrightarrow>
      inBounds (run es initialWorld) \<and> powerOk (physics (run es initialWorld))"
    using run_invariant [of es initialWorld] i by blast
  from a b show ?thesis unfolding powerOk_def by blast
qed

theorem power_tsr_invariant_witness:
  "wellFormed (WindSlider 25 (1/60)) \<and> wellFormed (Frame (1/60)) \<and>
   wellFormed (TorqueSlider 100 (1/60)) \<and>
   0 \<le> tsr (physics (run sessionEvents initialWorld)) \<and>
   kw (physics (run sessionEvents initialWorld)) \<in> \<int> \<and>
   0 \<le> kw (physics (run sessionEvents initialWorld)) \<and>
   kw (physics (run sessionEvents initialWorld)) \<le> 30"
proof -
  have h: "\<forall>e\<in>set sessionEvents. wellFormed e" by (simp add: sessionEvents_def)
  from power_tsr_invariant [of initialWorld 0 sessionEvents] h
  have "0 \<le> tsr (physics (run sessionEvents initialWorld)) \<and>
   kw (physics (run sessionEvents initialWorld)) \<in> \<int> \<and>
   0 \<le> kw (physics (run sessionEvents initialWorld)) \<and>
   kw (physics (run sessionEvents initialWorld)) \<le> 30"
    by blast
  then show ?thesis by simp
qed

section \<open>The states that are sampled\<close>

text \<open>
  The sampler only ever sees a state that a run of events from the mount-time state has
  produced. The lemmas below show that such a state never has the runaway flag set
  together with wind at most 3 and deployment at least 0.5: a tick at wind at most 18
  clears the flag unless the deployment gate is closed, and a tick at wind at most 3
  cannot set it, because a saturated stored power needs an applied torque of at least
  13.7 in the tick before, which leaves at least 6.25 for this tick, and at wind at most
  3 that is a brake ratio of at least 1.
\<close>

lemma optimal_range:
  assumes "5 \<le> bc" "bc \<le> 12" "100 \<le> bout" "bout \<le> 1500" "0 \<le> bin" "bin \<le> 800"
  shows "12/5 \<le> currentOptimalTSR bc bout bin \<and> currentOptimalTSR bc bout bin \<le> 5"
proof -
  have a: "- (1/4) \<le> bladeCountFactor bc" "bladeCountFactor bc \<le> 3 / 2"
    using assms(1,2) by (simp_all add: bladeCountFactor_def)
  have b: "0 \<le> hollowFactor bin" "hollowFactor bin \<le> 1/2"
    using assms(5,6) by (simp_all add: hollowFactor_def)
  have c: "- (7 / 125) \<le> lengthFactor bout" "lengthFactor bout \<le> 28/125"
    using assms(3,4) by (simp_all add: lengthFactor_def)
  show ?thesis
    unfolding currentOptimalTSR_def using a b c by linarith
qed

lemma appliedTorque_range:
  assumes "0 \<le> trq" "trq \<le> 100"
  shows "0 \<le> appliedTorque ap trq t0 opt \<and> appliedTorque ap trq t0 opt \<le> 100"
  using assms newTorque_range [of trq t0 opt] by (simp add: appliedTorque_def)

lemma brakeRatio_nonneg: "0 \<le> ct \<Longrightarrow> 0 \<le> brakeRatio ct wind"
  by (simp add: brakeRatio_def)

lemma targetStep_upper:
  assumes "0 \<le> opt" "opt \<le> 5" "0 \<le> br"
  shows "fst (targetStep depl runaway wind br opt (opt + 2) kw0) \<le> 7"
proof -
  have "opt + (1 - br) * 2 \<le> 7" using assms by simp
  then show ?thesis using assms by (simp add: targetStep_def Let_def)
qed

lemma integrateTsr_range:
  assumes "0 \<le> t0" "t0 \<le> 7" "0 \<le> target" "target \<le> 7"
  shows "0 \<le> integrateTsr t0 target \<and> integrateTsr t0 target \<le> 7 \<and>
         \<bar>integrateTsr t0 target - t0\<bar> \<le> 7/20"
proof -
  have eq: "integrateTsr t0 target = t0 + (target - t0) / 20"
    by (simp add: integrateTsr_def inertia_def)
  have a: "0 \<le> t0 + (target - t0) / 20" using assms by argo
  have b: "t0 + (target - t0) / 20 \<le> 7" using assms by argo
  have c: "\<bar>t0 + (target - t0) / 20 - t0\<bar> \<le> 7/20" using assms by argo
  from a b c show ?thesis unfolding eq by blast
qed

lemma calm_required:
  assumes "wind \<le> 3"
  shows "0 < max 1 (requiredTorqueForOptimal wind) \<and> max 1 (requiredTorqueForOptimal wind) \<le> 25/4"
proof -
  define m where "m = max 0.1 wind / 12"
  have m: "0 \<le> m" "m \<le> 1/4" using assms by (simp_all add: m_def)
  have "m * m \<le> (1/4) * (1/4)" using m by (intro mult_mono) simp_all
  then have le: "m ^ 2 * 100 \<le> 25/4" by (simp add: power2_eq_square)
  have r: "requiredTorqueForOptimal wind = m ^ 2 * 100"
    by (simp only: requiredTorqueForOptimal_def m_def)
  have a: "0 < max 1 (m ^ 2 * 100)" by (simp add: less_max_iff_disj)
  have b: "max 1 (m ^ 2 * 100) \<le> 25/4" using le by simp
  from a b show ?thesis unfolding r by blast
qed

lemma calm_braking:
  assumes "wind \<le> 3" "25/4 \<le> ct"
  shows "1 \<le> brakeRatio ct wind"
proof -
  define m where "m = max 1 (requiredTorqueForOptimal wind)"
  have "0 < m" "m \<le> ct"
    using calm_required [OF assms(1)] assms(2) unfolding m_def by linarith+
  then have "1 \<le> ct / m" by (simp add: le_divide_eq_1_pos)
  then show ?thesis by (simp add: brakeRatio_def m_def)
qed

lemma kwOf_saturated:
  assumes "30 \<le> kwOf ct r bc"
  shows "30 \<le> (ct / 100) * (r / 32) * 30 * (1 + ((bc - 6) * 0.1))"
proof -
  define q where "q = (ct / 100) * (r / 32) * 30 * (1 + ((bc - 6) * 0.1))"
  have "kwOf ct r bc = min 30 (max 0 (of_int \<lfloor>q\<rfloor>))"
    by (simp add: kwOf_def Let_def q_def)
  with assms have "(30::real) \<le> of_int \<lfloor>q\<rfloor>"
    by (simp add: min_def max_def split: if_splits)
  also have "of_int \<lfloor>q\<rfloor> \<le> q" by (rule of_int_floor_le)
  finally show ?thesis by (simp add: q_def)
qed

lemma rpmOf_upper:
  assumes "0 \<le> t1" "t1 \<le> 7" "0 \<le> wind" "100 \<le> bout"
  shows "0 \<le> rpmOf t1 wind bout \<and> rpmOf t1 wind bout \<le> 582/100 * wind"
proof -
  define D where "D = 2 * MATH_PI * ((ROTOR_RADIUS_SCALE + bout) / 100)"
  have D: "7225/100 \<le> D"
  proof -
    have "23/2 \<le> (ROTOR_RADIUS_SCALE + bout) / 100"
      using assms(4) by (simp add: ROTOR_RADIUS_SCALE_def)
    then have B: "2 * MATH_PI * (23/2) \<le> D"
      unfolding D_def by (intro mult_left_mono) (simp_all add: MATH_PI_def)
    have A: "7225/100 \<le> 2 * MATH_PI * (23/2)" by (simp add: MATH_PI_def)
    from A B show ?thesis by (rule order_trans)
  qed
  have eq: "rpmOf t1 wind bout = (t1 * wind * 60) / D"
    by (simp add: rpmOf_def Let_def D_def)
  have N: "0 \<le> t1 * wind * 60" using assms by simp
  have "t1 * wind \<le> 7 * wind" using assms by (intro mult_right_mono) simp_all
  then have N2: "t1 * wind * 60 \<le> 420 * wind" by simp
  have Dpos: "0 < D" using D by linarith
  have "(t1 * wind * 60) / D \<le> (420 * wind) / D"
    using N2 Dpos by (simp add: divide_right_mono)
  also have "(420 * wind) / D \<le> (420 * wind) / (7225/100)"
    using D assms(3) by (intro divide_left_mono) simp_all
  also have "\<dots> \<le> 582/100 * wind" using assms(3) by simp
  finally have "(t1 * wind * 60) / D \<le> 582/100 * wind" .
  moreover have "0 \<le> (t1 * wind * 60) / D" using N Dpos by simp
  ultimately show ?thesis by (simp add: eq)
qed

lemma power_needs_torque:
  assumes "0 \<le> (ct::real)" "ct \<le> 100" "0 \<le> (r::real)" "r \<le> 582/100 * wind" "wind \<le> 25"
    "5 \<le> (bc::real)" "bc \<le> 12"
    "30 \<le> (ct / 100) * (r / 32) * 30 * (1 + ((bc - 6) * 0.1))"
  shows "3 < wind \<and> 137/10 \<le> ct"
proof -
  define f where "f = 1 + ((bc - 6) * 0.1)"
  have f0: "0 \<le> f" using assms(6) unfolding f_def by argo
  have f1: "f \<le> 16/10" using assms(7) unfolding f_def by argo
  note f = f0 f1
  have cr: "0 \<le> ct * r" using assms(1,3) by simp
  have "(ct / 100) * (r / 32) * 30 * f = (ct * r) * (3/320) * f" by simp
  also have "\<dots> \<le> (ct * r) * (3/320) * (16/10)"
    using cr f by (intro mult_left_mono) simp_all
  finally have "30 \<le> (ct * r) * (3/320) * (16/10)"
    using assms(8) by (simp add: f_def)
  then have big: "2000 \<le> ct * r" by simp
  have w0: "0 \<le> wind" using assms(3,4) by linarith
  have "ct * r \<le> ct * (582/100 * wind)" using assms(1,4) by (intro mult_left_mono) simp_all
  with big have b2: "2000 \<le> ct * (582/100 * wind)" by linarith
  have "ct * (582/100 * wind) \<le> 100 * (582/100 * wind)"
    using assms(2) w0 by (intro mult_right_mono) simp_all
  with b2 have "2000 \<le> 582 * wind" by simp
  then have w3: "3 < wind" by linarith
  have "ct * (582/100 * wind) \<le> ct * (582/100 * 25)"
    using assms(1,5) by (intro mult_left_mono) simp_all
  with b2 have "2000 \<le> ct * (582/100 * 25)" by linarith
  then have "137/10 \<le> ct" by simp
  with w3 show ?thesis by simp
qed

lemma autopilot_follows:
  assumes "0 \<le> trq" "trq \<le> 100" "0 \<le> t0" "t0 \<le> 7" "\<bar>t1 - t0\<bar> \<le> 7/20"
    "12/5 \<le> opt" "opt \<le> 5" "137/10 \<le> appliedTorque ap trq t0 opt"
  shows "25/4 \<le> appliedTorque ap (storedTorque ap trq t0 opt) t1 opt"
  using assms
  unfolding appliedTorque_def storedTorque_def newTorque_def MAX_SAFE_TORQUE_def Let_def
  by argo


lemma tick_tsr_range:
  assumes "inBounds v" "0 \<le> tsr (physics v)" "tsr (physics v) \<le> 7"
  shows "0 \<le> tsr (physics (render dt v)) \<and> tsr (physics (render dt v)) \<le> 7 \<and>
         \<bar>tsr (physics (render dt v)) - tsr (physics v)\<bar> \<le> 7/20"
proof -
  define opt where "opt = currentOptimalTSR (bladeCount v) (bladeLengthOut v) (bladeLengthIn v)"
  have opt: "12/5 \<le> opt" "opt \<le> 5"
    using optimal_range [of "bladeCount v" "bladeLengthOut v" "bladeLengthIn v"] assms(1)
    by (simp_all add: inBounds_def opt_def)
  have ct: "0 \<le> appliedTorque (isAutoPilot v) (torque v) (tsr (physics v)) opt"
    using appliedTorque_range [of "torque v"] assms(1) by (simp add: inBounds_def)
  have opt0: "0 \<le> opt" using opt(1) by linarith
  have lo: "0 \<le> tickTargetTSR dt v"
    unfolding tickTargetTSR_eq max_above_optimal opt_def [symmetric]
    by (rule targetStep_nonneg [OF opt0])
  have hi: "tickTargetTSR dt v \<le> 7"
    unfolding tickTargetTSR_eq max_above_optimal opt_def [symmetric]
    by (rule targetStep_upper [OF opt0 opt(2) brakeRatio_nonneg [OF ct]])
  show ?thesis
    unfolding render_tsr by (rule integrateTsr_range [OF assms(2,3) lo hi])
qed

lemma tick_saturated:
  assumes "inBounds v" "0 \<le> tsr (physics v)" "tsr (physics v) \<le> 7"
    "30 \<le> kw (physics (render dt v))"
  shows "3 < envWindSpeed v \<and> 25/4 \<le> tickAppliedTorque (render dt v)"
proof -
  define opt where "opt = currentOptimalTSR (bladeCount v) (bladeLengthOut v) (bladeLengthIn v)"
  define ct where "ct = appliedTorque (isAutoPilot v) (torque v) (tsr (physics v)) opt"
  define t1 where "t1 = tsr (physics (render dt v))"
  have b: "0 \<le> envWindSpeed v" "envWindSpeed v \<le> 25" "0 \<le> torque v" "torque v \<le> 100"
    "5 \<le> bladeCount v" "bladeCount v \<le> 12" "100 \<le> bladeLengthOut v"
    using assms(1) by (simp_all add: inBounds_def)
  have opt: "12/5 \<le> opt" "opt \<le> 5"
    using optimal_range [of "bladeCount v" "bladeLengthOut v" "bladeLengthIn v"] assms(1)
    by (simp_all add: inBounds_def opt_def)
  have ctr: "0 \<le> ct" "ct \<le> 100"
    using appliedTorque_range [OF b(3,4)] by (simp_all add: ct_def)
  have t: "0 \<le> t1" "t1 \<le> 7" "\<bar>t1 - tsr (physics v)\<bar> \<le> 7/20"
    using tick_tsr_range [OF assms(1,2,3), of dt] by (simp_all add: t1_def)
  have r: "0 \<le> rpmOf t1 (envWindSpeed v) (bladeLengthOut v)"
    "rpmOf t1 (envWindSpeed v) (bladeLengthOut v) \<le> 582/100 * envWindSpeed v"
    using rpmOf_upper [OF t(1,2) b(1) b(7)] by simp_all
  have "30 \<le> kwOf ct (rpmOf t1 (envWindSpeed v) (bladeLengthOut v)) (bladeCount v)"
    using assms(4) by (simp add: render_kw ct_def opt_def t1_def)
  then have "30 \<le> (ct / 100) * (rpmOf t1 (envWindSpeed v) (bladeLengthOut v) / 32) * 30
                 * (1 + ((bladeCount v - 6) * 0.1))"
    by (rule kwOf_saturated)
  from power_needs_torque [OF ctr r b(2) b(5,6) this]
  have w: "3 < envWindSpeed v" and c: "137/10 \<le> ct" by simp_all
  have "25/4 \<le> appliedTorque (isAutoPilot v)
           (storedTorque (isAutoPilot v) (torque v) (tsr (physics v)) opt) t1 opt"
    using c unfolding ct_def
    by (intro autopilot_follows [OF b(3,4) assms(2,3) t(3) opt])
  then have "25/4 \<le> tickAppliedTorque (render dt v)"
    by (simp add: tickAppliedTorque_def render_torque opt_def t1_def)
  with w show ?thesis by simp
qed

lemma tick_no_calm_entry:
  assumes "envWindSpeed v \<le> 3"
    "30 \<le> kw (physics v) \<longrightarrow> 25/4 \<le> tickAppliedTorque v"
    "0.5 \<le> deploymentRef (render dt v)"
  shows "\<not> isRunaway (physics (render dt v))"
proof -
  have d: "0.5 \<le> tickDepl dt v"
    using assms(3) by (simp add: tickDepl_def render_deploymentRef deplOf_def)
  show ?thesis
  proof (cases "30 \<le> kw (physics v)")
    case True
    then have "1 \<le> brakeRatio (tickAppliedTorque v) (envWindSpeed v)"
      using assms(1,2) by (simp add: calm_braking)
    then show ?thesis
      using d assms(1)
      by (simp add: render_isRunaway tickAppliedTorque_def targetStep_def Let_def)
  next
    case False
    then show ?thesis
      using d assms(1)
      by (simp add: render_isRunaway targetStep_def Let_def)
  qed
qed

lemma tick_sampledInv:
  assumes "inBounds v" "0 \<le> tsr (physics v)" "tsr (physics v) \<le> 7"
    "envWindSpeed v \<le> 3 \<and> 30 \<le> kw (physics v) \<longrightarrow> 25/4 \<le> tickAppliedTorque v"
  shows "sampledInv (render dt v)"
proof -
  have a: "inBounds (render dt v)" by (rule render_inBounds [OF assms(1)])
  note t = tick_tsr_range [OF assms(1,2,3), of dt]
  have k: "30 \<le> kw (physics (render dt v)) \<longrightarrow>
             3 < envWindSpeed (render dt v) \<and> 25/4 \<le> tickAppliedTorque (render dt v)"
    using tick_saturated [OF assms(1,2,3), of dt] by simp
  have r: "envWindSpeed (render dt v) \<le> 3 \<and> 0.5 \<le> deploymentRef (render dt v)
             \<longrightarrow> \<not> isRunaway (physics (render dt v))"
    using tick_no_calm_entry [of v dt] assms(4) by auto
  from a t k r show ?thesis unfolding sampledInv_def by blast
qed

lemma step_sampledInv:
  assumes "wellFormed e" "sampledInv w"
  shows "sampledInv (step e w)"
proof -
  have b: "inBounds w" and t: "0 \<le> tsr (physics w)" "tsr (physics w) \<le> 7"
    and k: "30 \<le> kw (physics w) \<longrightarrow> 3 < envWindSpeed w \<and> 25/4 \<le> tickAppliedTorque w"
    using assms(2) by (simp_all add: sampledInv_def)
  show ?thesis
  proof (cases e)
    case (Frame dt)
    have "sampledInv (render dt w)"
      using k by (intro tick_sampledInv [OF b t]) auto
    then show ?thesis using Frame by simp
  next
    case UiSample
    then show ?thesis
      using assms(2) by (simp add: sampledInv_def inBounds_def uiInterval_def tickAppliedTorque_def)
  next
    case (WindSlider x1 dt)
    let ?v = "w \<lparr> envWindSpeed := of_int x1 \<rparr>"
    have bv: "inBounds ?v" using b assms(1) WindSlider by (simp add: inBounds_def)
    have kv: "envWindSpeed ?v \<le> 3 \<and> 30 \<le> kw (physics ?v) \<longrightarrow> 25/4 \<le> tickAppliedTorque ?v"
      using k by (simp add: tickAppliedTorque_def)
    have "sampledInv (render dt ?v)"
      using t kv by (intro tick_sampledInv [OF bv]) simp_all
    then show ?thesis using WindSlider by simp
  next
    case (TorqueSlider x1 dt)
    let ?v = "w \<lparr> torque := of_int x1 \<rparr>"
    have bv: "inBounds ?v" using b assms(1) TorqueSlider by (simp add: inBounds_def)
    have kv: "envWindSpeed ?v \<le> 3 \<and> 30 \<le> kw (physics ?v) \<longrightarrow> 25/4 \<le> tickAppliedTorque ?v"
      using k by auto
    have "sampledInv (render dt ?v)"
      using t kv by (intro tick_sampledInv [OF bv]) simp_all
    then show ?thesis using TorqueSlider assms(2) by simp
  next
    case (AutoPilotButton dt)
    let ?v = "w \<lparr> isAutoPilot := \<not> isAutoPilot w \<rparr>"
    have bv: "inBounds ?v" using b by (simp add: inBounds_def)
    have kv: "envWindSpeed ?v \<le> 3 \<and> 30 \<le> kw (physics ?v) \<longrightarrow> 25/4 \<le> tickAppliedTorque ?v"
      using k by auto
    have "sampledInv (render dt ?v)"
      using t kv by (intro tick_sampledInv [OF bv]) simp_all
    then show ?thesis using AutoPilotButton assms(2) by simp
  next
    case (BladeLengthOutSlider x1 dt)
    let ?v = "w \<lparr> bladeLengthOut := of_int x1 \<rparr>"
    have bv: "inBounds ?v" using b assms(1) BladeLengthOutSlider by (simp add: inBounds_def)
    have kv: "envWindSpeed ?v \<le> 3 \<and> 30 \<le> kw (physics ?v) \<longrightarrow> 25/4 \<le> tickAppliedTorque ?v"
      using k by auto
    have "sampledInv (render dt ?v)"
      using t kv by (intro tick_sampledInv [OF bv]) simp_all
    then show ?thesis using BladeLengthOutSlider by simp
  next
    case (BladeLengthInSlider x1 dt)
    let ?v = "w \<lparr> bladeLengthIn := of_int x1 \<rparr>"
    have bv: "inBounds ?v" using b assms(1) BladeLengthInSlider by (simp add: inBounds_def)
    have kv: "envWindSpeed ?v \<le> 3 \<and> 30 \<le> kw (physics ?v) \<longrightarrow> 25/4 \<le> tickAppliedTorque ?v"
      using k by auto
    have "sampledInv (render dt ?v)"
      using t kv by (intro tick_sampledInv [OF bv]) simp_all
    then show ?thesis using BladeLengthInSlider by simp
  next
    case (BladeCountSlider x1 dt)
    let ?v = "w \<lparr> bladeCount := of_int x1 \<rparr>"
    have bv: "inBounds ?v" using b assms(1) BladeCountSlider by (simp add: inBounds_def)
    have kv: "envWindSpeed ?v \<le> 3 \<and> 30 \<le> kw (physics ?v) \<longrightarrow> 25/4 \<le> tickAppliedTorque ?v"
      using k by auto
    have "sampledInv (render dt ?v)"
      using t kv by (intro tick_sampledInv [OF bv]) simp_all
    then show ?thesis using BladeCountSlider by simp
  qed
qed

lemma run_sampledInv:
  assumes "\<forall>e\<in>set es. wellFormed e" "sampledInv w"
  shows "sampledInv (run es w)"
  using assms
proof (induction es arbitrary: w)
  case Nil
  then show ?case by simp
next
  case (Cons e es)
  have "sampledInv (step e w)" using Cons.prems by (intro step_sampledInv) simp_all
  then show ?case using Cons.IH [of "step e w"] Cons.prems(1) by simp
qed

lemma initial_sampledInv: "sampledInv initialWorld"
  by (simp add: sampledInv_def inBounds_def initialWorld_def initialPhysics_def)

lemma statusOf_vs_spec:
  "statusOf d wind ps =
     (if 0.5 \<le> d \<and> isRunaway ps \<and> wind \<le> 3 then ''RUNAWAY'' else statusSpec d wind ps)"
  by (simp add: statusOf_def statusSpec_def Let_def)

section \<open>Status classification\<close>

text \<open>
  C2. For every sampled state, that is every state reached from the mount-time state by
  well-formed events, the reported status is the one of the specification's rule:
  GROUNDED if deployment is below 0.5 or wind is at most 3; else RUNAWAY if the flag is
  set; else STALL if \<open>tsr < optimalTsr * 0.6\<close>; else OVERSPEED if
  \<open>tsr > optimalTsr * 1.25\<close>; else OPTIMAL. In particular every sampled state with wind at
  most 3 is reported GROUNDED, whatever its deployment and runaway flag; the combination
  of wind at most 3, deployment at least 0.5 and a set runaway flag, on which the
  sampler's own order of tests would answer RUNAWAY, is never sampled.
\<close>

theorem status_precedence:
  assumes "\<forall>e\<in>set es. wellFormed e"
  shows "uiStatus (uiInterval (run es initialWorld)) =
           statusSpec (deploymentRef (run es initialWorld)) (envWindSpeed (run es initialWorld))
             (physics (run es initialWorld)) \<and>
         (envWindSpeed (run es initialWorld) \<le> 3 \<longrightarrow>
            uiStatus (uiInterval (run es initialWorld)) = ''GROUNDED'') \<and>
         \<not> (envWindSpeed (run es initialWorld) \<le> 3 \<and>
            0.5 \<le> deploymentRef (run es initialWorld) \<and>
            isRunaway (physics (run es initialWorld)))"
proof -
  define w where "w = run es initialWorld"
  have "sampledInv w"
    unfolding w_def by (rule run_sampledInv [OF assms initial_sampledInv])
  then have n: "\<not> (envWindSpeed w \<le> 3 \<and> 0.5 \<le> deploymentRef w \<and> isRunaway (physics w))"
    by (auto simp add: sampledInv_def)
  have "uiStatus (uiInterval w) = statusOf (deploymentRef w) (envWindSpeed w) (physics w)"
    by (simp add: uiInterval_def)
  with n have a: "uiStatus (uiInterval w) =
                    statusSpec (deploymentRef w) (envWindSpeed w) (physics w)"
    by (auto simp add: statusOf_vs_spec)
  have b: "envWindSpeed w \<le> 3 \<longrightarrow> uiStatus (uiInterval w) = ''GROUNDED''"
    unfolding a by (simp add: statusSpec_def)
  from a b n show ?thesis unfolding w_def by blast
qed

theorem status_precedence_witness:
  "wellFormed (WindSlider 2 (1/60)) \<and>
   envWindSpeed (run [WindSlider 2 (1/60)] initialWorld) \<le> 3 \<and>
   0.5 \<le> deploymentRef (run [WindSlider 2 (1/60)] initialWorld) \<and>
   uiStatus (uiInterval (run [WindSlider 2 (1/60)] initialWorld)) = ''GROUNDED'' \<and>
   uiStatus (uiInterval (run [] initialWorld)) = ''STALL''"
proof -
  have h: "\<forall>e\<in>set [WindSlider 2 (1/60)]. wellFormed e" by simp
  have v: "envWindSpeed (run [WindSlider 2 (1/60)] initialWorld) \<le> 3"
    "0.5 \<le> deploymentRef (run [WindSlider 2 (1/60)] initialWorld)"
    by (simp_all add: render_deploymentRef) (simp_all add: world_defs tick_defs)
  from status_precedence [OF h] v(1)
  have g: "uiStatus (uiInterval (run [WindSlider 2 (1/60)] initialWorld)) = ''GROUNDED''"
    by blast
  have "\<forall>e\<in>set ([] :: event list). wellFormed e" by simp
  from status_precedence [OF this]
  have "uiStatus (uiInterval (run [] initialWorld)) =
          statusSpec (deploymentRef (run [] initialWorld)) (envWindSpeed (run [] initialWorld))
             (physics (run [] initialWorld))"
    by blast
  then have s: "uiStatus (uiInterval (run [] initialWorld)) = ''STALL''"
    by (simp add: statusSpec_def world_defs)
  from v g s show ?thesis by simp
qed

text \<open>
  C10. The exported grounded flag is true exactly when the deployment is below 0.1. The
  status is GROUNDED whenever the deployment is below 0.5, and it is not GROUNDED when
  the deployment is at least 0.5 and the wind above 3; on every sampled state it is
  GROUNDED exactly when the deployment is below 0.5 or the wind is at most 3. Hence
  every state with deployment from 0.1 (included) to 0.5 (excluded) has status GROUNDED
  and a false grounded flag.
\<close>

theorem grounded_flag_vs_status:
  "(uiGrounded (uiInterval w) \<longleftrightarrow> deploymentRef w < 0.1) \<and>
   (deploymentRef w < 0.5 \<longrightarrow> uiStatus (uiInterval w) = ''GROUNDED'') \<and>
   (0.5 \<le> deploymentRef w \<and> 3 < envWindSpeed w \<longrightarrow> uiStatus (uiInterval w) \<noteq> ''GROUNDED'') \<and>
   (0.1 \<le> deploymentRef w \<and> deploymentRef w < 0.5 \<longrightarrow>
      uiStatus (uiInterval w) = ''GROUNDED'' \<and> \<not> uiGrounded (uiInterval w)) \<and>
   ((\<forall>e\<in>set es. wellFormed e) \<longrightarrow>
      (uiStatus (uiInterval (run es initialWorld)) = ''GROUNDED'' \<longleftrightarrow>
         deploymentRef (run es initialWorld) < 0.5 \<or> envWindSpeed (run es initialWorld) \<le> 3))"
proof -
  have a: "uiGrounded (uiInterval w) \<longleftrightarrow> deploymentRef w < 0.1"
    by (simp add: uiInterval_def groundedFlag_def)
  have b: "deploymentRef w < 0.5 \<longrightarrow> uiStatus (uiInterval w) = ''GROUNDED''"
    by (simp add: uiInterval_def statusOf_def Let_def)
  have c: "0.5 \<le> deploymentRef w \<and> 3 < envWindSpeed w \<longrightarrow>
             uiStatus (uiInterval w) \<noteq> ''GROUNDED''"
    by (simp add: uiInterval_def statusOf_def Let_def)
  have d: "0.1 \<le> deploymentRef w \<and> deploymentRef w < 0.5 \<longrightarrow>
      uiStatus (uiInterval w) = ''GROUNDED'' \<and> \<not> uiGrounded (uiInterval w)"
    by (simp add: uiInterval_def statusOf_def groundedFlag_def Let_def)
  have e: "(\<forall>e\<in>set es. wellFormed e) \<longrightarrow>
      (uiStatus (uiInterval (run es initialWorld)) = ''GROUNDED'' \<longleftrightarrow>
         deploymentRef (run es initialWorld) < 0.5 \<or> envWindSpeed (run es initialWorld) \<le> 3)"
  proof
    assume h: "\<forall>e\<in>set es. wellFormed e"
    define v where "v = run es initialWorld"
    have "sampledInv v"
      unfolding v_def by (rule run_sampledInv [OF h initial_sampledInv])
    then have n: "\<not> (envWindSpeed v \<le> 3 \<and> 0.5 \<le> deploymentRef v \<and> isRunaway (physics v))"
      by (auto simp add: sampledInv_def)
    have "uiStatus (uiInterval v) = statusOf (deploymentRef v) (envWindSpeed v) (physics v)"
      by (simp add: uiInterval_def)
    with n have "uiStatus (uiInterval v) = ''GROUNDED'' \<longleftrightarrow>
                   deploymentRef v < 0.5 \<or> envWindSpeed v \<le> 3"
      by (auto simp add: statusOf_def Let_def)
    then show "uiStatus (uiInterval (run es initialWorld)) = ''GROUNDED'' \<longleftrightarrow>
         deploymentRef (run es initialWorld) < 0.5 \<or> envWindSpeed (run es initialWorld) \<le> 3"
      unfolding v_def .
  qed
  from a b c d e show ?thesis by blast
qed

theorem grounded_flag_vs_status_witness:
  "wellFormed (WindSlider 2 (1/60)) \<and> wellFormed (Frame 1) \<and>
   deploymentRef (run [WindSlider 2 (1/60), Frame 1] initialWorld) = 74/375 \<and>
   uiStatus (uiInterval (run [WindSlider 2 (1/60), Frame 1] initialWorld)) = ''GROUNDED'' \<and>
   \<not> uiGrounded (uiInterval (run [WindSlider 2 (1/60), Frame 1] initialWorld)) \<and>
   uiStatus (uiInterval initialWorld) \<noteq> ''GROUNDED''"
proof -
  let ?w = "run [WindSlider 2 (1/60), Frame 1] initialWorld"
  have d: "deploymentRef ?w = 74/375"
    by (simp add: render_deploymentRef) (simp add: world_defs tick_defs)
  then have r: "0.1 \<le> deploymentRef ?w \<and> deploymentRef ?w < 0.5" by simp
  from grounded_flag_vs_status [of ?w "[]"] r
  have g: "uiStatus (uiInterval ?w) = ''GROUNDED'' \<and> \<not> uiGrounded (uiInterval ?w)"
    by blast
  have i: "0.5 \<le> deploymentRef initialWorld \<and> 3 < envWindSpeed initialWorld"
    by (simp add: world_defs)
  from grounded_flag_vs_status [of initialWorld "[]"] i
  have n: "uiStatus (uiInterval initialWorld) \<noteq> ''GROUNDED''"
    by blast
  from d g n show ?thesis by simp
qed

section \<open>The projector\<close>

text \<open>
  C6. For every world point, camera pose and viewport: if the camera-space depth is not
  negative the projection returns no result; if it is negative, the denominator
  \<open>fov - zCam\<close> is positive, the scale \<open>k = fov / (fov - zCam)\<close> lies strictly between 0
  and 1, and the projection returns the viewport centre plus \<open>(x * k, - y * k)\<close> of the
  camera-space coordinates, with depth \<open>zCam\<close>.
\<close>

theorem projector_culls_and_scales:
  "(zCam cam p \<ge> 0 \<longrightarrow> worldToScreen cam p width height = None) \<and>
   (zCam cam p < 0 \<longrightarrow>
      fov - zCam cam p > 0 \<and>
      0 < fov / (fov - zCam cam p) \<and> fov / (fov - zCam cam p) < 1 \<and>
      worldToScreen cam p width height =
        Some \<lparr> x = width / 2 + camX cam p * (fov / (fov - zCam cam p)),
               y = height / 2 - camY cam p * (fov / (fov - zCam cam p)),
               z = zCam cam p \<rparr>)"
proof -
  have a: "zCam cam p \<ge> 0 \<longrightarrow> worldToScreen cam p width height = None"
    by (simp add: worldToScreen_def zCam_def camZ2_def Let_def)
  have b: "zCam cam p < 0 \<longrightarrow> worldToScreen cam p width height =
        Some \<lparr> x = width / 2 + camX cam p * (fov / (fov - zCam cam p)),
               y = height / 2 - camY cam p * (fov / (fov - zCam cam p)),
               z = zCam cam p \<rparr>"
    by (simp add: worldToScreen_def zCam_def camX_def camY_def camZ2_def Let_def)
  have c: "zCam cam p < 0 \<longrightarrow> fov - zCam cam p > 0 \<and>
      0 < fov / (fov - zCam cam p) \<and> fov / (fov - zCam cam p) < 1"
    by (simp add: fov_def)
  from a b c show ?thesis by blast
qed

theorem projector_culls_and_scales_witness:
  "zCam camFront \<lparr> x = 300, y = 600, z = 0 \<rparr> < 0 \<and>
   worldToScreen camFront \<lparr> x = 300, y = 600, z = 0 \<rparr> 800 600
     = Some \<lparr> x = 600, y = -100, z = -1000 \<rparr> \<and>
   zCam camFront \<lparr> x = 300, y = 600, z = 3000 \<rparr> \<ge> 0 \<and>
   worldToScreen camFront \<lparr> x = 300, y = 600, z = 3000 \<rparr> 800 600 = None"
proof -
  let ?p = "\<lparr> x = 300, y = 600, z = 0 \<rparr>"
  let ?r = "\<lparr> x = 300, y = 600, z = 3000 \<rparr>"
  have v: "zCam camFront ?p = -1000" "camX camFront ?p = 300" "camY camFront ?p = 600"
    "zCam camFront ?r = 2000"
    by (simp_all add: zCam_def camX_def camY_def camZ2_def camFront_def)
  have n: "zCam camFront ?p < 0" and g: "zCam camFront ?r \<ge> 0" by (simp_all add: v)
  from projector_culls_and_scales [of camFront ?p 800 600] n
  have "worldToScreen camFront ?p 800 600 =
        Some \<lparr> x = 800 / 2 + camX camFront ?p * (fov / (fov - zCam camFront ?p)),
               y = 600 / 2 - camY camFront ?p * (fov / (fov - zCam camFront ?p)),
               z = zCam camFront ?p \<rparr>"
    by blast
  then have s: "worldToScreen camFront ?p 800 600 = Some \<lparr> x = 600, y = -100, z = -1000 \<rparr>"
    by (simp add: v fov_def)
  from projector_culls_and_scales [of camFront ?r 800 600] g
  have c: "worldToScreen camFront ?r 800 600 = None"
    by blast
  from n s g c show ?thesis by blast
qed

end
